theory Spec2Isabelle
  imports Main
begin

section \<open>Python values and helpers used by configure.py\<close>

text \<open>
  The kBuild target and architecture enumerations (classes \<open>BuildTargets\<close> and
  \<open>BuildArch\<close>). The script compares their members only for equality and
  membership, so the string payloads are not needed.
\<close>

datatype BuildTargets = ANY | LINUX | WINDOWS | DARWIN | SOLARIS | BSD | HAIKU | UNKNOWN

datatype BuildArch = ARCH_UNKNOWN | X86 | AMD64 | ARM64

text \<open>
  Exceptions that leave a function of the script. \<open>SubprocessError\<close> is always
  caught inside the function that provokes it and therefore never appears here.
\<close>

datatype exn = TypeError | IndexError | OSError | KeyError string

text \<open>Characters that cannot be typed inside a string literal.\<close>

definition squote :: char where
  "squote = CHR 0x27"

definition dquote :: char where
  "dquote = CHR 0x22"

definition backslash :: char where
  "backslash = CHR 0x5C"

text \<open>\<open>s.startswith(p)\<close> and \<open>p in s\<close> on strings.\<close>

definition startswith :: "string \<Rightarrow> string \<Rightarrow> bool" where
  "startswith s p = (take (length p) s = p)"

fun str_contains :: "string \<Rightarrow> string \<Rightarrow> bool" where
  "str_contains p [] = (p = [])"
| "str_contains p (c # cs) = (startswith (c # cs) p \<or> str_contains p cs)"

text \<open>\<open>s.replace(a, b)\<close> for a single character \<open>a\<close>.\<close>

definition replace_char :: "char \<Rightarrow> char \<Rightarrow> string \<Rightarrow> string" where
  "replace_char a b s = map (\<lambda>c. if c = a then b else c) s"

text \<open>\<open>s.lower()\<close> on ASCII text.\<close>

definition lower_char :: "char \<Rightarrow> char" where
  "lower_char c =
     (let n = (of_char c :: nat) in if 65 \<le> n \<and> n \<le> 90 then char_of (n + 32) else c)"

definition lower :: "string \<Rightarrow> string" where
  "lower s = map lower_char s"

text \<open>
  \<open>repr(s)\<close> of a string of printable ASCII characters: single quotes unless the
  string holds a single quote and no double quote; the backslash and the chosen
  quote are escaped.
\<close>

definition py_repr :: "string \<Rightarrow> string" where
  "py_repr s =
     (let q = (if squote \<in> set s \<and> dquote \<notin> set s then dquote else squote)
      in [q] @ concat (map (\<lambda>c. if c = backslash \<or> c = q then [backslash, c] else [c]) s) @ [q])"

text \<open>\<open>", ".join(xs)\<close> and the text that an f-string gives for a list of strings.\<close>

fun join_comma :: "string list \<Rightarrow> string" where
  "join_comma [] = []"
| "join_comma [x] = x"
| "join_comma (x # y # ys) = x @ '', '' @ join_comma (y # ys)"

definition py_format_list :: "string list \<Rightarrow> string" where
  "py_format_list xs = ''['' @ join_comma (map py_repr xs) @ '']''"

text \<open>The text that an f-string gives for a value that is a string or \<open>None\<close>.\<close>

definition py_format_opt :: "string option \<Rightarrow> string" where
  "py_format_opt v = (case v of None \<Rightarrow> ''None'' | Some s \<Rightarrow> s)"

text \<open>Truthiness of a value that is a string or \<open>None\<close>.\<close>

definition truthy :: "string option \<Rightarrow> bool" where
  "truthy v = (case v of None \<Rightarrow> False | Some s \<Rightarrow> s \<noteq> [])"

text \<open>
  \<open>if self.sCustomPath:\<close> selects the custom root only when it is set and not
  the empty string.
\<close>

definition custom_root :: "string option \<Rightarrow> string option" where
  "custom_root v = (if truthy v then v else None)"

section \<open>EnvManager\<close>

text \<open>
  The values that reach the store: \<open>set\<close> stores strings, \<open>updateFromArgs\<close>
  stores whatever argparse produced (strings, booleans, counters, \<open>None\<close> is
  skipped there but a rule may still return it).
\<close>

datatype pyval = PStr string | PBool bool | PInt int | PNone

fun digits :: "nat \<Rightarrow> string" where
  "digits n = (if n < 10 then [char_of (48 + n)] else digits (n div 10) @ [char_of (48 + n mod 10)])"

fun py_str :: "pyval \<Rightarrow> string" where
  "py_str (PStr s) = s"
| "py_str (PBool b) = (if b then ''True'' else ''False'')"
| "py_str (PInt i) = (if i < 0 then ''-'' @ digits (nat (- i)) else digits (nat i))"
| "py_str PNone = ''None''"

text \<open>
  A Python \<open>dict\<close> keeps its keys in insertion order and \<open>write\<close> iterates in
  that order, so the store is an association list without duplicate keys:
  assigning to a present key keeps its position, a new key goes to the end.
\<close>

type_synonym env = "(string \<times> pyval) list"

fun dict_set :: "env \<Rightarrow> string \<Rightarrow> pyval \<Rightarrow> env" where
  "dict_set [] k v = [(k, v)]"
| "dict_set ((k', v') # d) k v =
     (if k' = k then (k, v) # d else (k', v') # dict_set d k v)"

definition dict_get :: "env \<Rightarrow> string \<Rightarrow> pyval option" where
  "dict_get d k = map_of d k"

text \<open>\<open>d.update(r)\<close>: the items of \<open>r\<close> are assigned in order.\<close>

fun dict_update :: "env \<Rightarrow> env \<Rightarrow> env" where
  "dict_update d [] = d"
| "dict_update d ((k, v) # r) = dict_update (dict_set d k v) r"

text \<open>\<open>EnvManager.set\<close>: strings are stored, booleans become \<open>'1'\<close> or \<open>''\<close>,
  anything else is ignored (the \<open>assert True\<close> never fires).\<close>

fun env_set :: "env \<Rightarrow> string \<Rightarrow> pyval \<Rightarrow> env" where
  "env_set e sKey (PStr s) = dict_set e sKey (PStr s)"
| "env_set e sKey (PBool b) = dict_set e sKey (PStr (if b then ''1'' else ''''))"
| "env_set e sKey oVal = e"

text \<open>\<open>EnvManager.get\<close>.\<close>

definition env_get :: "env \<Rightarrow> string \<Rightarrow> pyval \<Rightarrow> pyval" where
  "env_get e key default' = (case dict_get e key of Some v \<Rightarrow> v | None \<Rightarrow> default')"

text \<open>
  \<open>EnvManager.modify\<close>. The store is mutated in place, so it is returned in
  both outcomes, next to the exception raised (if any).
\<close>

definition modify :: "env \<Rightarrow> string \<Rightarrow> (pyval \<Rightarrow> pyval) \<Rightarrow> env \<times> exn option" where
  "modify e key func =
     (case dict_get e key of
        Some v \<Rightarrow> (dict_set e key (PStr (py_str (func v))), None)
      | None \<Rightarrow> (e, Some (KeyError (key @ '' not set in environment''))))"

text \<open>
  A transform rule receives the store and returns either a \<open>dict\<close> of overrides
  or something else, which \<open>transform\<close> skips (\<open>isinstance(result, dict)\<close>).
\<close>

datatype rule_result = Dict env | NotDict

type_synonym rule = "env \<Rightarrow> rule_result"

definition transform_step :: "env \<Rightarrow> rule \<Rightarrow> env" where
  "transform_step e exprCur = (case exprCur e of Dict r \<Rightarrow> dict_update e r | NotDict \<Rightarrow> e)"

fun transform :: "env \<Rightarrow> rule list \<Rightarrow> env" where
  "transform e [] = e"
| "transform e (exprCur # rest) = transform (transform_step e exprCur) rest"

section \<open>The host and the run context\<close>

text \<open>
  Everything the script asks of the machine it runs on. The file system is taken
  as fixed during one run; each field answers one library call.
\<close>

datatype proc =
    Completed int string string  \<comment> \<open>return code, decoded stdout, decoded stderr\<close>
  | SubprocessError              \<comment> \<open>\<open>subprocess.run\<close> raised it (for instance the timeout)\<close>
  | ProcOSError                  \<comment> \<open>\<open>subprocess.run\<close> raised \<open>OSError\<close> (the program cannot be started)\<close>

record host =
  path_exists :: "string \<Rightarrow> bool"            \<comment> \<open>\<open>os.path.exists\<close>\<close>
  path_isfile :: "string \<Rightarrow> bool"            \<comment> \<open>\<open>os.path.isfile\<close>\<close>
  path_isdir :: "string \<Rightarrow> bool"             \<comment> \<open>\<open>os.path.isdir\<close>\<close>
  access_x :: "string \<Rightarrow> bool"               \<comment> \<open>\<open>os.access(p, os.X_OK)\<close>\<close>
  path_join :: "string \<Rightarrow> string \<Rightarrow> string"  \<comment> \<open>\<open>os.path.join\<close>\<close>
  os_sep :: string                           \<comment> \<open>\<open>os.sep\<close>\<close>
  which :: "string \<Rightarrow> string option"        \<comment> \<open>\<open>shutil.which\<close>\<close>
  glob_glob :: "string \<Rightarrow> string list"      \<comment> \<open>\<open>glob.glob\<close>\<close>
  subprocess_run :: "string list \<Rightarrow> proc"    \<comment> \<open>\<open>subprocess.run\<close>\<close>
  open_w :: "string \<Rightarrow> bool"                 \<comment> \<open>\<open>open(p, "w")\<close> and the write succeed\<close>
  os_remove :: "string \<Rightarrow> bool"              \<comment> \<open>\<open>os.remove\<close> succeeds\<close>
  mkdtemp :: string                          \<comment> \<open>the directory \<open>tempfile.TemporaryDirectory\<close> makes\<close>
  platform_machine :: string                 \<comment> \<open>\<open>platform.machine()\<close>\<close>
  platform_system :: string                  \<comment> \<open>\<open>platform.system()\<close>\<close>
  g_sScriptPath :: string

text \<open>The module globals that the checks read.\<close>

record globals =
  g_enmBuildTarget :: BuildTargets
  g_enmBuildArch :: BuildArch
  g_fDebug :: bool

text \<open>
  The run context: the global error counter, and a record of every call that
  touches the file system or starts a process, in the order the calls are made.
\<close>

datatype fs_op =
    Exists string | IsFile string | IsDir string | AccessX string | Which string
  | Glob string | Run "string list" | OpenW string | Remove string | MkDTemp

record ctx =
  g_cErrors :: nat
  fs_log :: "fs_op list"

definition touch :: "fs_op \<Rightarrow> ctx \<Rightarrow> ctx" where
  "touch e c = c\<lparr>fs_log := fs_log c @ [e]\<rparr>"

text \<open>\<open>printError\<close>: the text goes to stderr, the counter is what later code reads.\<close>

definition printError :: "ctx \<Rightarrow> ctx" where
  "printError c = c\<lparr>g_cErrors := g_cErrors c + 1\<rparr>"

section \<open>checkWhich\<close>

text \<open>
  \<open>s.strip().splitlines()[0]\<close>: the first line of the stripped text, and
  \<open>IndexError\<close> when nothing is left after stripping.
\<close>

definition is_space :: "char \<Rightarrow> bool" where
  "is_space c = (let n = (of_char c :: nat) in (9 \<le> n \<and> n \<le> 13) \<or> (28 \<le> n \<and> n \<le> 32))"

definition is_linebreak :: "char \<Rightarrow> bool" where
  "is_linebreak c = (let n = (of_char c :: nat) in (10 \<le> n \<and> n \<le> 13) \<or> (28 \<le> n \<and> n \<le> 30))"

definition strip :: "string \<Rightarrow> string" where
  "strip s = rev (dropWhile is_space (rev (dropWhile is_space s)))"

definition first_line :: "string \<Rightarrow> exn + string" where
  "first_line s = (if strip s = [] then Inl IndexError else Inr (takeWhile (\<lambda>c. \<not> is_linebreak c) (strip s)))"

definition asSwitches :: "string list" where
  "asSwitches = [''--version'', ''-V'', ''/?'', ''/h'', ''/help'', ''-version'', ''version'']"

text \<open>
  The version loop of \<open>checkWhich\<close> for a command path already found: the first
  switch whose process returns 0 gives the version; a \<open>SubprocessError\<close> is
  caught, counted and ends in \<open>(None, None)\<close>; any other exception escapes.
\<close>

fun version_loop ::
  "host \<Rightarrow> string \<Rightarrow> string list \<Rightarrow> ctx \<Rightarrow> exn + ((string option \<times> string option) \<times> ctx)" where
  "version_loop h sCmdPath [] c = Inr ((Some sCmdPath, Some ''<unknown>''), c)"
| "version_loop h sCmdPath (sSwitch # rest) c =
     (let c1 = touch (Run [sCmdPath, sSwitch]) c in
      case subprocess_run h [sCmdPath, sSwitch] of
        ProcOSError \<Rightarrow> Inl OSError
      | SubprocessError \<Rightarrow> Inr ((None, None), printError c1)
      | Completed rc out err \<Rightarrow>
          if rc = 0 then
            (case first_line out of
               Inl e \<Rightarrow> Inl e
             | Inr sVer \<Rightarrow> Inr ((Some sCmdPath, Some sVer), c1))
          else version_loop h sCmdPath rest c1)"

text \<open>
  \<open>checkWhich\<close>, first its lookup: below a custom root only that root is
  tried, otherwise \<open>shutil.which\<close> searches PATH. Then the method: a lookup
  that yields nothing counts an error and returns \<open>(None, None)\<close>.
\<close>

definition checkWhich_lookup ::
  "host \<Rightarrow> string \<Rightarrow> string option \<Rightarrow> ctx \<Rightarrow> string option \<times> ctx" where
  "checkWhich_lookup h sCmdName sCustomPath c =
     (case custom_root sCustomPath of
        Some sRoot \<Rightarrow>
          (let sCmdPath = path_join h sRoot sCmdName;
               c1 = touch (IsFile sCmdPath) c;
               c2 = (if path_isfile h sCmdPath then touch (AccessX sCmdPath) c1 else c1)
           in (if path_isfile h sCmdPath \<and> access_x h sCmdPath then Some sCmdPath else None, c2))
      | None \<Rightarrow> (which h sCmdName, touch (Which sCmdName) c))"

definition checkWhich ::
  "host \<Rightarrow> string \<Rightarrow> string \<Rightarrow> string option \<Rightarrow> ctx
     \<Rightarrow> exn + ((string option \<times> string option) \<times> ctx)" where
  "checkWhich h sCmdName sToolDesc sCustomPath c =
     (case checkWhich_lookup h sCmdName sCustomPath c of
        (Some sCmdPath, c1) \<Rightarrow>
          (if sCmdPath \<noteq> [] then version_loop h sCmdPath asSwitches c1
           else Inr ((None, None), printError c1))
      | (None, c1) \<Rightarrow> Inr ((None, None), printError c1))"

section \<open>Probes\<close>

text \<open>
  The fields that \<open>LibraryCheck\<close> and \<open>ToolCheck\<close> both carry. \<open>fHave\<close> is the
  tri-state status: \<open>None\<close> not checked, \<open>Some False\<close> not found, \<open>Some True\<close>
  found. \<open>aeTargets\<close> of a tool defaults to the string \<open>"any"\<close>, on which the
  two membership tests of \<open>performCheck\<close> answer as they do on the list \<open>[ANY]\<close>.
\<close>

record Probe =
  sName :: string
  aeTargets :: "BuildTargets list"
  fDisabled :: bool
  sCustomPath :: "string option"
  fHave :: "bool option"
  sVer :: "string option"

record LibraryCheck = Probe +
  asIncFiles :: "string list"
  asLibFiles :: "string list"
  sCode :: string
  aeTargetsExcluded :: "BuildTargets list"
  asAltIncFiles :: "string list"
  sIncPath :: "string option"
  sLibPath :: "string option"

datatype callback = checkCallback_OpenWatcom | checkCallback_XCode

record ToolCheck = Probe +
  fnCallback :: "callback option"
  asCmd :: "string list option"
  sCmdPath :: "string option"

text \<open>The constructors.\<close>

definition LibraryCheck_init ::
  "string \<Rightarrow> string list \<Rightarrow> string list \<Rightarrow> BuildTargets list \<Rightarrow> string
     \<Rightarrow> BuildTargets list \<Rightarrow> string list \<Rightarrow> LibraryCheck" where
  "LibraryCheck_init name incs libs targets code excluded alts =
     \<lparr> sName = name, aeTargets = targets, fDisabled = False, sCustomPath = None,
       fHave = None, sVer = None,
       asIncFiles = incs, asLibFiles = libs, sCode = code, aeTargetsExcluded = excluded,
       asAltIncFiles = alts, sIncPath = None, sLibPath = None \<rparr>"

definition ToolCheck_init ::
  "string \<Rightarrow> string list option \<Rightarrow> callback option \<Rightarrow> BuildTargets list \<Rightarrow> ToolCheck" where
  "ToolCheck_init name cmds cb targets =
     \<lparr> sName = name, aeTargets = targets, fDisabled = False, sCustomPath = None,
       fHave = None, sVer = None,
       fnCallback = cb, asCmd = cmds, sCmdPath = None \<rparr>"

text \<open>
  The parsed command line, as far as \<open>setArgs\<close> reads it: per probe name the
  disable flag and the custom root.
\<close>

record args =
  config_libs_disable :: "string \<Rightarrow> bool"
  config_libs_path :: "string \<Rightarrow> string option"
  config_tools_disable :: "string \<Rightarrow> bool"
  config_tools_path :: "string \<Rightarrow> string option"

definition LibraryCheck_setArgs :: "args \<Rightarrow> LibraryCheck \<Rightarrow> LibraryCheck" where
  "LibraryCheck_setArgs a p =
     p\<lparr> fDisabled := config_libs_disable a (sName p), sCustomPath := config_libs_path a (sName p) \<rparr>"


section \<open>LibraryCheck\<close>

definition asCPPHdr :: "string list" where
  "asCPPHdr = [''c++'', ''iostream'', ''Qt'', ''qt'', ''qglobal.h'', ''qcoreapplication.h'']"

text \<open>
  \<open>hasCPPHeader\<close> walks \<open>[self.asIncFiles] + self.asAltIncFiles\<close>: its first
  element is the whole primary list, on which \<open>c in h\<close> is list membership; on
  the alternate names it is the substring test.
\<close>

definition hasCPPHeader :: "LibraryCheck \<Rightarrow> bool" where
  "hasCPPHeader p =
     ((asIncFiles p \<noteq> [] \<and> list_ex (\<lambda>c. c \<in> set (asIncFiles p)) asCPPHdr)
      \<or> list_ex (\<lambda>h. h \<noteq> [] \<and> list_ex (\<lambda>c. str_contains c h) asCPPHdr) (asAltIncFiles p))"

text \<open>\<open>getLinkerArgs\<close>: one iteration of its loop, then the method.\<close>

definition linker_arg :: "globals \<Rightarrow> string \<Rightarrow> string list" where
  "linker_arg g sLibCur =
     (if g_enmBuildTarget g \<noteq> WINDOWS then
        [''-l'' @ (if startswith sLibCur ''lib'' then drop 3 sLibCur else '':'' @ sLibCur)]
      else [])"

definition getLinkerArgs :: "globals \<Rightarrow> LibraryCheck \<Rightarrow> string list" where
  "getLinkerArgs g p =
     (if asLibFiles p = [] then [] else concat (map (linker_arg g) (asLibFiles p)))"

definition mapPlatform2GnuType :: "(string \<times> string) list" where
  "mapPlatform2GnuType =
     [ (''x86_64'', ''x86_64-linux-gnu''),
       (''amd64'', ''x86_64-linux-gnu''),
       (''i386'', ''i386-linux-gnu''),
       (''i686'', ''i386-linux-gnu''),
       (''aarch64'', ''aarch64-linux-gnu''),
       (''arm64'', ''aarch64-linux-gnu''),
       (''armv7l'', ''arm-linux-gnueabihf''),
       (''armv6l'', ''arm-linux-gnueabi''),
       (''ppc64le'', ''powerpc64le-linux-gnu''),
       (''s390x'', ''s390x-linux-gnu''),
       (''riscv64'', ''riscv64-linux-gnu'') ]"

definition getLinuxGnuTypeFromPlatform :: "host \<Rightarrow> string option" where
  "getLinuxGnuTypeFromPlatform h = map_of mapPlatform2GnuType (lower (platform_machine h))"

text \<open>\<open>[p for p in asPaths if os.path.exists(p)]\<close>, with the calls it makes.\<close>

definition existing :: "host \<Rightarrow> string list \<Rightarrow> ctx \<Rightarrow> string list \<times> ctx" where
  "existing h asPaths c =
     (filter (path_exists h) asPaths, c\<lparr>fs_log := fs_log c @ map Exists asPaths\<rparr>)"

text \<open>The drive enumeration of the Windows branches.\<close>

definition root_drives :: "host \<Rightarrow> ctx \<Rightarrow> string list \<times> ctx" where
  "root_drives h c =
     existing h (map (\<lambda>d. [d] @ '':'') ''CDEFGHIJKLMNOPQRSTUVWXYZ'') c"

definition program_files :: "string list" where
  "program_files =
     [ ''c:'' @ [backslash, backslash] @ ''Program Files'',
       ''c:'' @ [backslash, backslash] @ ''Program Files (x86)'' ]"

definition win_subdirs :: "string \<Rightarrow> string list" where
  "win_subdirs leaf =
     [ [backslash] @ ''msys64'' @ [backslash] @ ''mingw64'' @ [backslash] @ leaf,
       [backslash] @ ''msys64'' @ [backslash] @ ''mingw32'' @ [backslash] @ leaf,
       [backslash] @ leaf ]"

text \<open>
  \<open>getIncSearchPaths\<close>, first the unfiltered list \<open>asPaths\<close> (with the drive
  probing of the Windows branch), then the existence filter. A machine name
  missing from the triplet table makes \<open>"/usr/include/" + sGnuType\<close> raise.
\<close>

definition inc_asPaths :: "host \<Rightarrow> globals \<Rightarrow> LibraryCheck \<Rightarrow> ctx \<Rightarrow> exn + (string list \<times> ctx)" where
  "inc_asPaths h g p c =
     (let asPaths0 = (case custom_root (sCustomPath p) of
                        Some sRoot \<Rightarrow> [path_join h sRoot ''include''] | None \<Rightarrow> []);
          asPaths1 = asPaths0 @ [path_join h (g_sScriptPath h) ''src/libs'']
      in if g_enmBuildTarget g = WINDOWS then
           (case root_drives h c of
              (asRootDrivers, c1) \<Rightarrow>
                Inr (asPaths1
                       @ concat (map (\<lambda>r. map (path_join h r) (win_subdirs ''include'') @ program_files)
                                     asRootDrivers), c1))
         else
           (case getLinuxGnuTypeFromPlatform h of
              None \<Rightarrow> Inl TypeError
            | Some sGnuType \<Rightarrow>
                Inr (asPaths1
                       @ [ ''/usr/include'', ''/usr/local/include'',
                           ''/usr/include/'' @ sGnuType, ''/usr/local/include/'' @ sGnuType,
                           ''/usr/include/'' @ sName p, ''/usr/local/include/'' @ sName p,
                           ''/opt/include'', ''/opt/local/include'' ]
                       @ (if g_enmBuildTarget g = DARWIN then [''/opt/homebrew/include''] else []),
                     c)))"

definition getIncSearchPaths :: "host \<Rightarrow> globals \<Rightarrow> LibraryCheck \<Rightarrow> ctx \<Rightarrow> exn + (string list \<times> ctx)" where
  "getIncSearchPaths h g p c =
     (case inc_asPaths h g p c of Inl e \<Rightarrow> Inl e | Inr (asPaths, c1) \<Rightarrow> Inr (existing h asPaths c1))"

text \<open>
  \<open>getLibSearchPaths\<close>. Its Linux/Solaris branch assigns a new list to
  \<open>asPaths\<close>, where every other branch extends the list built so far.
\<close>

definition lib_asPaths :: "host \<Rightarrow> globals \<Rightarrow> LibraryCheck \<Rightarrow> ctx \<Rightarrow> exn + (string list \<times> ctx)" where
  "lib_asPaths h g p c =
     (let asPaths0 = (case custom_root (sCustomPath p) of
                        Some sRoot \<Rightarrow> [path_join h sRoot ''lib''] | None \<Rightarrow> []);
          asPaths1 = asPaths0 @ [path_join h (g_sScriptPath h) ''src/libs'']
      in if g_enmBuildTarget g = WINDOWS then
           (case root_drives h c of
              (root_drives', c1) \<Rightarrow>
                Inr (asPaths1
                       @ concat (map (\<lambda>r. map (path_join h r) (win_subdirs ''lib'') @ program_files)
                                     root_drives'), c1))
         else if g_enmBuildTarget g = LINUX \<or> g_enmBuildTarget g = SOLARIS then
           (case getLinuxGnuTypeFromPlatform h of
              None \<Rightarrow> Inl TypeError
            | Some sGnuType \<Rightarrow>
                Inr ([ ''/usr/lib'', ''/usr/local/lib'',
                       ''/usr/lib/'' @ sGnuType, ''/opt/local/lib/'' @ sGnuType,
                       ''/usr/lib64'', ''/lib'', ''/lib64'',
                       ''/opt/lib'', ''/opt/local/lib'' ], c))
         else Inr (asPaths1 @ [''/opt/homebrew/lib''], c))"

definition getLibSearchPaths :: "host \<Rightarrow> globals \<Rightarrow> LibraryCheck \<Rightarrow> ctx \<Rightarrow> exn + (string list \<times> ctx)" where
  "getLibSearchPaths h g p c =
     (case lib_asPaths h g p c of Inl e \<Rightarrow> Inl e | Inr (asPaths, c1) \<Rightarrow> Inr (existing h asPaths c1))"

text \<open>
  \<open>checkInc\<close>: the inner loop over the header names for one directory, the
  outer loop over the directories, and the method. On a host whose separator is
  the backslash each name is also tried with its slashes replaced.
\<close>

fun checkInc_headers :: "host \<Rightarrow> string \<Rightarrow> string list \<Rightarrow> ctx \<Rightarrow> bool \<times> ctx" where
  "checkInc_headers h sCurSearchPath [] c = (False, c)"
| "checkInc_headers h sCurSearchPath (sCurHeader # rest) c =
     (let sCur = path_join h sCurSearchPath sCurHeader;
          c1 = touch (IsFile sCur) c
      in if path_isfile h sCur then (True, c1)
         else if os_sep h = [backslash] then
           (let sCur2 = path_join h sCurSearchPath (replace_char CHR ''/'' backslash sCurHeader);
                c2 = touch (IsFile sCur2) c1
            in if path_isfile h sCur2 then (True, c2)
               else checkInc_headers h sCurSearchPath rest c2)
         else checkInc_headers h sCurSearchPath rest c1)"

fun checkInc_paths :: "host \<Rightarrow> string list \<Rightarrow> string list \<Rightarrow> ctx \<Rightarrow> string option \<times> ctx" where
  "checkInc_paths h [] asHeaderToSearch c = (None, c)"
| "checkInc_paths h (sCurSearchPath # rest) asHeaderToSearch c =
     (case checkInc_headers h sCurSearchPath asHeaderToSearch c of
        (True, c1) \<Rightarrow> (Some sCurSearchPath, c1)
      | (False, c1) \<Rightarrow> checkInc_paths h rest asHeaderToSearch c1)"

definition checkInc ::
  "host \<Rightarrow> globals \<Rightarrow> LibraryCheck \<Rightarrow> ctx \<Rightarrow> exn + (bool \<times> LibraryCheck \<times> ctx)" where
  "checkInc h g p c =
     (if asIncFiles p = [] \<and> asAltIncFiles p = [] then Inr (True, p, c)
      else
        (let asHeaderToSearch = asIncFiles p @ asAltIncFiles p in
         case getIncSearchPaths h g p c of
           Inl e \<Rightarrow> Inl e
         | Inr (asSearchPaths, c1) \<Rightarrow>
             (case checkInc_paths h asSearchPaths asHeaderToSearch c1 of
                (Some sFound, c2) \<Rightarrow> Inr (True, p\<lparr>sIncPath := Some sFound\<rparr>, c2)
              | (None, c2) \<Rightarrow> Inr (False, p, printError c2))))"

text \<open>
  \<open>checkLib\<close>: the loop over the files a pattern matches, the loop over the
  extensions for one directory, the loop over the directories, and the method.
  \<open>sBasename\<close> is bound to the list \<open>self.asLibFiles\<close> itself, so the f-string
  of the pattern holds the text of the whole list.
\<close>

fun checkLib_files :: "host \<Rightarrow> string list \<Rightarrow> ctx \<Rightarrow> bool \<times> ctx" where
  "checkLib_files h [] c = (False, c)"
| "checkLib_files h (sCurFile # rest) c =
     (let c1 = touch (IsFile sCurFile) c
      in if path_isfile h sCurFile then (True, c1) else checkLib_files h rest c1)"

fun checkLib_exts :: "host \<Rightarrow> string \<Rightarrow> string list \<Rightarrow> string list \<Rightarrow> ctx \<Rightarrow> bool \<times> ctx" where
  "checkLib_exts h sCurSearchPath sBasename [] c = (False, c)"
| "checkLib_exts h sCurSearchPath sBasename (sCurExt # rest) c =
     (let sPattern = path_join h sCurSearchPath (py_format_list sBasename @ ''*'' @ sCurExt);
          c1 = touch (Glob sPattern) c
      in case checkLib_files h (glob_glob h sPattern) c1 of
           (True, c2) \<Rightarrow> (True, c2)
         | (False, c2) \<Rightarrow> checkLib_exts h sCurSearchPath sBasename rest c2)"

fun checkLib_paths ::
  "host \<Rightarrow> string list \<Rightarrow> string list \<Rightarrow> string list \<Rightarrow> ctx \<Rightarrow> string option \<times> ctx" where
  "checkLib_paths h [] sBasename asLibExts c = (None, c)"
| "checkLib_paths h (sCurSearchPath # rest) sBasename asLibExts c =
     (case checkLib_exts h sCurSearchPath sBasename asLibExts c of
        (True, c1) \<Rightarrow> (Some sCurSearchPath, c1)
      | (False, c1) \<Rightarrow> checkLib_paths h rest sBasename asLibExts c1)"

definition asLibExts :: "globals \<Rightarrow> string list" where
  "asLibExts g =
     (if g_enmBuildTarget g = WINDOWS then [''.lib'', ''.dll'', ''.a'', ''.dll.a'']
      else if g_enmBuildTarget g = DARWIN then [''.a'', ''.dylib'', ''.so'']
      else [''.a'', ''.so''])"

definition checkLib ::
  "host \<Rightarrow> globals \<Rightarrow> LibraryCheck \<Rightarrow> ctx \<Rightarrow> exn + (bool \<times> LibraryCheck \<times> ctx)" where
  "checkLib h g p c =
     (if asLibFiles p = [] then Inr (True, p, c)
      else
        (let sBasename = asLibFiles p in
         case getLibSearchPaths h g p c of
           Inl e \<Rightarrow> Inl e
         | Inr (asSearchPaths, c1) \<Rightarrow>
             (case checkLib_paths h asSearchPaths sBasename (asLibExts g) c1 of
                (Some sFound, c2) \<Rightarrow> Inr (True, p\<lparr>sLibPath := Some sFound\<rparr>, c2)
              | (None, c2) \<Rightarrow> Inr (False, p, printError c2))))"

text \<open>
  \<open>LibraryCheck.performCheck\<close>. \<open>self.checkInc() and self.checkLib()\<close> does not
  call \<open>checkLib\<close> when \<open>checkInc\<close> has failed.
\<close>

definition LibraryCheck_performCheck ::
  "host \<Rightarrow> globals \<Rightarrow> LibraryCheck \<Rightarrow> ctx \<Rightarrow> exn + (LibraryCheck \<times> ctx)" where
  "LibraryCheck_performCheck h g p c =
     (if g_enmBuildTarget g \<in> set (aeTargetsExcluded p) then Inr (p\<lparr>fHave := None\<rparr>, c)
      else if fDisabled p then Inr (p\<lparr>fHave := None\<rparr>, c)
      else if g_enmBuildTarget g \<in> set (aeTargets p) \<or> ANY \<in> set (aeTargets p) then
        (case checkInc h g p c of
           Inl e \<Rightarrow> Inl e
         | Inr (fInc, p1, c1) \<Rightarrow>
             if \<not> fInc then Inr (p1\<lparr>fHave := Some False\<rparr>, c1)
             else
               (case checkLib h g p1 c1 of
                  Inl e \<Rightarrow> Inl e
                | Inr (fLib, p2, c2) \<Rightarrow> Inr (p2\<lparr>fHave := Some fLib\<rparr>, c2)))
      else Inr (p, c))"

text \<open>
  \<open>compileAndExecute\<close>: the names it computes, then the method. The removal
  of the binary sits in the \<open>finally\<close> of the execution step and so runs on
  each of its outcomes.
\<close>

definition remove_binary :: "host \<Rightarrow> globals \<Rightarrow> string \<Rightarrow> ctx \<Rightarrow> ctx" where
  "remove_binary h g sBinPath c =
     (if g_fDebug g then c
      else (let c1 = touch (Remove sBinPath) c
            in if os_remove h sBinPath then c1 else printError c1))"

definition sCompiler :: "LibraryCheck \<Rightarrow> string" where
  "sCompiler p = (if hasCPPHeader p then ''g++'' else ''gcc'')"

definition sTempDir :: "host \<Rightarrow> globals \<Rightarrow> string" where
  "sTempDir h g = (if g_fDebug g then ''/tmp/'' else mkdtemp h)"

definition sFilePath :: "host \<Rightarrow> globals \<Rightarrow> LibraryCheck \<Rightarrow> string" where
  "sFilePath h g p =
     path_join h (sTempDir h g) (if sCompiler p = ''g++'' then ''testlib.cpp'' else ''testlib.c'')"

definition sBinPath :: "host \<Rightarrow> globals \<Rightarrow> string" where
  "sBinPath h g =
     path_join h (sTempDir h g) (if platform_system h \<noteq> ''Windows'' then ''a.out'' else ''a.exe'')"

definition compile_asCmd :: "host \<Rightarrow> globals \<Rightarrow> LibraryCheck \<Rightarrow> string list" where
  "compile_asCmd h g p =
     [ sCompiler p, sFilePath h g p,
       ''-I'' @ py_format_opt (sIncPath p), ''-L'' @ py_format_opt (sLibPath p),
       ''-o'', sBinPath h g ] @ getLinkerArgs g p"

definition compileAndExecute ::
  "host \<Rightarrow> globals \<Rightarrow> LibraryCheck \<Rightarrow> ctx \<Rightarrow> exn + (LibraryCheck \<times> ctx)" where
  "compileAndExecute h g p c =
     (let c1 = touch (OpenW (sFilePath h g p)) (touch MkDTemp c)
      in if \<not> open_w h (sFilePath h g p) then Inl OSError
         else
           (let c2 = touch (Run (compile_asCmd h g p)) c1
            in case subprocess_run h (compile_asCmd h g p) of
                 ProcOSError \<Rightarrow> Inl OSError
               | SubprocessError \<Rightarrow> Inr (p, printError c2)
               | Completed rc out err \<Rightarrow>
                   if rc \<noteq> 0 then Inr (p, printError c2)
                   else
                     (let c3 = touch (Run [sBinPath h g]) c2
                      in case subprocess_run h [sBinPath h g] of
                           ProcOSError \<Rightarrow> Inl OSError
                         | SubprocessError \<Rightarrow>
                             Inr (p, remove_binary h g (sBinPath h g) (printError c3))
                         | Completed rc2 out2 err2 \<Rightarrow>
                             if rc2 = 0
                             then Inr (p\<lparr>sVer := Some (strip out2)\<rparr>,
                                       remove_binary h g (sBinPath h g) c3)
                             else Inr (p, remove_binary h g (sBinPath h g)
                                            (printError (printError c3))))))"


section \<open>ToolCheck\<close>

text \<open>
  The loop of \<open>ToolCheck.performCheck\<close> over \<open>self.asCmd\<close>: every name is looked
  up; a hit sets \<open>fHave\<close>, the first miss returns \<open>False\<close> and leaves \<open>fHave\<close> as
  it was at that point.
\<close>

fun performCheck_loop ::
  "host \<Rightarrow> ToolCheck \<Rightarrow> string list \<Rightarrow> ctx \<Rightarrow> exn + (bool \<times> ToolCheck \<times> ctx)" where
  "performCheck_loop h t [] c = Inr (True, t, c)"
| "performCheck_loop h t (sCmdCur # rest) c =
     (case checkWhich h sCmdCur (sName t) (sCustomPath t) c of
        Inl e \<Rightarrow> Inl e
      | Inr ((sPath, sVersion), c1) \<Rightarrow>
          (let t1 = t\<lparr>sCmdPath := sPath, sVer := sVersion\<rparr>
           in if truthy sPath then performCheck_loop h (t1\<lparr>fHave := Some True\<rparr>) rest c1
              else Inr (False, t1, c1)))"

text \<open>\<open>checkCallback_OpenWatcom\<close>.\<close>

definition mapBuildTarget2Bin :: "globals \<Rightarrow> (BuildTargets \<times> string) list" where
  "mapBuildTarget2Bin g =
     [ (DARWIN, ''binosx''),
       (LINUX, if g_enmBuildArch g = AMD64 then ''binl64'' else ''arml64''),
       (SOLARIS, ''binsol''),
       (WINDOWS, ''binnt''),
       (BSD, ''binnbsd'') ]"

fun OpenWatcom_loop ::
  "host \<Rightarrow> ToolCheck \<Rightarrow> string option \<Rightarrow> string list \<Rightarrow> ctx \<Rightarrow> exn + (bool \<times> ToolCheck \<times> ctx)" where
  "OpenWatcom_loop h t sRoot [] c = Inr (True, t, c)"
| "OpenWatcom_loop h t sRoot (sCmdCur # rest) c =
     (case checkWhich h sCmdCur ''OpenWatcom'' sRoot c of
        Inl e \<Rightarrow> Inl e
      | Inr ((sPath, sVersion), c1) \<Rightarrow>
          (let t1 = t\<lparr>sCmdPath := sPath, sVer := sVersion\<rparr>
           in if \<not> truthy sPath then Inr (False, t1, c1)
              else OpenWatcom_loop h t1 sRoot rest c1))"

definition OpenWatcom ::
  "host \<Rightarrow> globals \<Rightarrow> ToolCheck \<Rightarrow> ctx \<Rightarrow> exn + (bool \<times> ToolCheck \<times> ctx)" where
  "OpenWatcom h g t c =
     (case map_of (mapBuildTarget2Bin g) (g_enmBuildTarget g) of
        None \<Rightarrow> Inr (False, t, printError c)
      | Some sBinSubdir \<Rightarrow>
          (case asCmd t of
             None \<Rightarrow> Inl TypeError
           | Some cmds \<Rightarrow>
               OpenWatcom_loop h t
                 (case custom_root (sCustomPath t) of
                    Some sRoot \<Rightarrow> Some (path_join h sRoot sBinSubdir) | None \<Rightarrow> None)
                 cmds c))"

text \<open>\<open>checkCallback_XCode\<close>.\<close>

fun XCode_loop :: "host \<Rightarrow> ToolCheck \<Rightarrow> string list \<Rightarrow> ctx \<Rightarrow> bool \<times> ToolCheck \<times> ctx" where
  "XCode_loop h t [] c = (False, t, printError c)"
| "XCode_loop h t (sPathCur # rest) c =
     (let c1 = touch (IsDir sPathCur) c
      in if path_isdir h sPathCur then
           (let sPathClang = path_join h sPathCur ''usr/bin/clang'';
                sPathXcodebuild = path_join h sPathCur ''usr/bin/xcodebuild'';
                c2 = touch (IsFile sPathClang) c1;
                c3 = (if path_isfile h sPathClang then touch (IsFile sPathXcodebuild) c2 else c2)
            in if path_isfile h sPathClang \<and> path_isfile h sPathXcodebuild
               then (True, t\<lparr>sCmdPath := Some sPathXcodebuild\<rparr>, c3)
               else XCode_loop h t rest c3)
         else XCode_loop h t rest c1)"

definition XCode :: "host \<Rightarrow> ToolCheck \<Rightarrow> ctx \<Rightarrow> bool \<times> ToolCheck \<times> ctx" where
  "XCode h t c =
     XCode_loop h t
       ((case custom_root (sCustomPath t) of Some sRoot \<Rightarrow> [sRoot] | None \<Rightarrow> [])
          @ [''/Library/Developer/CommandLineTools''])
       c"

fun run_callback ::
  "callback \<Rightarrow> host \<Rightarrow> globals \<Rightarrow> ToolCheck \<Rightarrow> ctx \<Rightarrow> exn + (bool \<times> ToolCheck \<times> ctx)" where
  "run_callback checkCallback_OpenWatcom h g t c = OpenWatcom h g t c"
| "run_callback checkCallback_XCode h g t c = Inr (XCode h t c)"

text \<open>\<open>ToolCheck.performCheck\<close>, with the success status it returns.\<close>

definition ToolCheck_performCheck ::
  "host \<Rightarrow> globals \<Rightarrow> ToolCheck \<Rightarrow> ctx \<Rightarrow> exn + (bool \<times> ToolCheck \<times> ctx)" where
  "ToolCheck_performCheck h g t c =
     (if fDisabled t then Inr (True, t\<lparr>fHave := None\<rparr>, c)
      else if g_enmBuildTarget g \<in> set (aeTargets t) \<or> ANY \<in> set (aeTargets t) then
        (case fnCallback t of
           Some cb \<Rightarrow>
             (case run_callback cb h g t c of
                Inl e \<Rightarrow> Inl e
              | Inr (fRes, t1, c1) \<Rightarrow> Inr (True, t1\<lparr>fHave := Some fRes\<rparr>, c1))
         | None \<Rightarrow>
             (case asCmd t of
                None \<Rightarrow> Inl TypeError
              | Some cmds \<Rightarrow> performCheck_loop h t cmds c))
      else Inr (True, t, c))"

section \<open>A POSIX host\<close>

text \<open>
  The library functions of a POSIX host, for running the checks on a concrete
  file system: \<open>posixpath.join\<close> for two components, and \<open>glob.glob\<close> for a
  pattern whose directory part holds no wildcard, which lists that directory,
  drops hidden names unless the pattern itself starts with a dot, and keeps the
  names that \<open>fnmatch\<close> accepts (\<open>*\<close>, \<open>?\<close>, \<open>[seq]\<close>, \<open>[!seq]\<close>, case-sensitive).
\<close>

definition posix_join :: "string \<Rightarrow> string \<Rightarrow> string" where
  "posix_join a b =
     (if startswith b ''/'' then b
      else if a = [] \<or> last a = CHR ''/'' then a @ b
      else a @ ''/'' @ b)"

fun split_close :: "string \<Rightarrow> (string \<times> string) option" where
  "split_close [] = None"
| "split_close (c # cs) =
     (if c = CHR '']'' then Some ([], cs)
      else (case split_close cs of None \<Rightarrow> None | Some (a, b) \<Rightarrow> Some (c # a, b)))"

text \<open>
  The text after an opening bracket: an optional \<open>!\<close>, an optional leading
  \<open>]\<close> that belongs to the set, then everything up to the closing bracket.
  \<open>None\<close> when no closing bracket follows, in which case the opening bracket
  stands for itself.
\<close>

definition parse_class :: "string \<Rightarrow> (bool \<times> string \<times> string) option" where
  "parse_class s =
     (let neg = (case s of c # r \<Rightarrow> c = CHR ''!'' | [] \<Rightarrow> False);
          s1 = (if neg then tl s else s);
          lead = (case s1 of c # r \<Rightarrow> c = CHR '']'' | [] \<Rightarrow> False);
          s2 = (if lead then tl s1 else s1)
      in case split_close s2 of
           None \<Rightarrow> None
         | Some (stuff, rest) \<Rightarrow> Some (neg, (if lead then '']'' else []) @ stuff, rest))"

fun in_class :: "string \<Rightarrow> char \<Rightarrow> bool" where
  "in_class [] c = False"
| "in_class [a] c = (a = c)"
| "in_class [a, b] c = (a = c \<or> b = c)"
| "in_class (a # m # b # rest) c =
     (if m = CHR ''-''
      then ((of_char a :: nat) \<le> of_char c \<and> (of_char c :: nat) \<le> of_char b) \<or> in_class rest c
      else a = c \<or> in_class (m # b # rest) c)"

lemma split_close_length: "split_close s = Some (a, b) \<Longrightarrow> length b < length s"
  by (induction s arbitrary: a b) (auto split: if_splits option.splits)

lemma parse_class_length: "parse_class s = Some (neg, stuff, rest) \<Longrightarrow> length rest < Suc (length s)"
  by (auto simp: parse_class_def Let_def split: option.splits list.splits if_splits
           dest!: split_close_length)

function fnmatch :: "string \<Rightarrow> string \<Rightarrow> bool" where
  "fnmatch name [] = (name = [])"
| "fnmatch name (p # pat) =
     (if p = CHR ''*'' then
        fnmatch name pat \<or> (case name of [] \<Rightarrow> False | n # ns \<Rightarrow> fnmatch ns (p # pat))
      else if p = CHR ''?'' then
        (case name of [] \<Rightarrow> False | n # ns \<Rightarrow> fnmatch ns pat)
      else if p = CHR ''['' then
        (case parse_class pat of
           None \<Rightarrow> (case name of [] \<Rightarrow> False | n # ns \<Rightarrow> n = p \<and> fnmatch ns pat)
         | Some (neg, stuff, rest) \<Rightarrow>
             (case name of [] \<Rightarrow> False
              | n # ns \<Rightarrow> (in_class stuff n \<noteq> neg) \<and> fnmatch ns rest))
      else (case name of [] \<Rightarrow> False | n # ns \<Rightarrow> n = p \<and> fnmatch ns pat))"
  by pat_completeness auto
termination
  by (relation "measure (\<lambda>(name, pat). length name + length pat)")
     (auto dest: parse_class_length)

definition split_path :: "string \<Rightarrow> string \<times> string" where
  "split_path s =
     (let base = rev (takeWhile (\<lambda>c. c \<noteq> CHR ''/'') (rev s));
          head = take (length s - length base) s;
          dir = rev (dropWhile (\<lambda>c. c = CHR ''/'') (rev head))
      in (if dir = [] then head else dir, base))"

definition ishidden :: "string \<Rightarrow> bool" where
  "ishidden s = startswith s ''.''"

definition posix_glob :: "(string \<Rightarrow> string list) \<Rightarrow> string \<Rightarrow> string list" where
  "posix_glob listdir pathname =
     (case split_path pathname of
        (dirname, basename) \<Rightarrow>
          map (posix_join dirname)
            (filter (\<lambda>x. (ishidden basename \<or> \<not> ishidden x) \<and> fnmatch x basename)
                    (listdir dirname)))"

text \<open>
  A directory listing and a PATH search over a list of absolute paths, and the
  host they make: \<open>files\<close> are the regular files, \<open>dirs\<close> the directories,
  \<open>exes\<close> the paths with the execute permission, \<open>run\<close> the outcome of each
  command line, \<open>machine\<close> the machine name.
\<close>

definition posix_listdir :: "string list \<Rightarrow> string \<Rightarrow> string list" where
  "posix_listdir entries d =
     map (\<lambda>p. snd (split_path p)) (filter (\<lambda>p. fst (split_path p) = d) entries)"

definition posix_which :: "(string \<Rightarrow> bool) \<Rightarrow> string list \<Rightarrow> string \<Rightarrow> string option" where
  "posix_which is_exe path cmd = find is_exe (map (\<lambda>d. posix_join d cmd) path)"

definition posix_host ::
  "string list \<Rightarrow> string list \<Rightarrow> string list \<Rightarrow> (string list \<Rightarrow> proc) \<Rightarrow> string \<Rightarrow> host" where
  "posix_host files dirs exes run machine =
     \<lparr> path_exists = (\<lambda>p. p \<in> set files \<or> p \<in> set dirs),
       path_isfile = (\<lambda>p. p \<in> set files),
       path_isdir = (\<lambda>p. p \<in> set dirs),
       access_x = (\<lambda>p. p \<in> set exes),
       path_join = posix_join,
       os_sep = ''/'',
       which = posix_which (\<lambda>p. p \<in> set files \<and> p \<in> set exes) [''/usr/local/bin'', ''/usr/bin''],
       glob_glob = posix_glob (posix_listdir (files @ dirs)),
       subprocess_run = run,
       open_w = (\<lambda>p. True),
       os_remove = (\<lambda>p. True),
       mkdtemp = ''/tmp/tmpconfigure'',
       platform_machine = machine,
       platform_system = ''Linux'',
       g_sScriptPath = ''/work/vbox'' \<rparr>"

text \<open>A fresh run context, and the globals of a Linux/amd64 and a Windows run.\<close>

definition ctx0 :: ctx where
  "ctx0 = \<lparr> g_cErrors = 0, fs_log = [] \<rparr>"

definition linux_globals :: globals where
  "linux_globals = \<lparr> g_enmBuildTarget = LINUX, g_enmBuildArch = AMD64, g_fDebug = False \<rparr>"

definition windows_globals :: globals where
  "windows_globals = \<lparr> g_enmBuildTarget = WINDOWS, g_enmBuildArch = AMD64, g_fDebug = False \<rparr>"


text \<open>Two entries of the catalogue \<open>g_aoLibs\<close> and one of \<open>g_aoTools\<close>.\<close>

definition lib_zlib1g :: LibraryCheck where
  "lib_zlib1g =
     LibraryCheck_init ''zlib1g'' [''zlib.h''] [''libz''] [ANY]
       (''#include <zlib.h>\<newline>int main() { printf('' @ [dquote] @ ''%s'' @ [dquote]
          @ '', ZLIB_VERSION); return 0; }\<newline>'') [] []"

definition lib_xmu :: LibraryCheck where
  "lib_xmu =
     LibraryCheck_init ''xmu'' [''X11/Xmu/Xmu.h''] [''libXmu''] [LINUX, SOLARIS, BSD]
       (''#include <X11/Xmu/Xmu.h>\<newline>int main() { XmuMakeAtom('' @ [dquote] @ ''test'' @ [dquote]
          @ ''); printf('' @ [dquote] @ ''<found>'' @ [dquote] @ ''); return 0; }\<newline>'')
       [DARWIN] []"

definition tool_gsoap :: ToolCheck where
  "tool_gsoap = ToolCheck_init ''gsoap'' (Some [''soapcpp2'', ''wsdl2h'']) None [ANY]"

text \<open>A store and two rules, the second of which reads the key the first writes.\<close>

definition example_env :: env where
  "example_env = [(''VBOX_OSE'', PStr ''1''), (''VBOX_WITH_DOCS'', PStr ''yes'')]"

definition rule_writes_x :: rule where
  "rule_writes_x env = Dict [(''X'', PStr ''1'')]"

definition rule_reads_x :: rule where
  "rule_reads_x env =
     (if env_get env ''X'' (PStr '''') = PStr ''1''
      then Dict [(''Y'', PStr ''seen'')] else Dict [(''Y'', PStr ''unseen'')])"

definition append_bang :: "pyval \<Rightarrow> pyval" where
  "append_bang v = PStr (py_str v @ ''!'')"

text \<open>
  Hosts for the examples below. On each of them every process started ends as
  the last argument says.
\<close>

definition darwin_globals :: globals where
  "darwin_globals = \<lparr> g_enmBuildTarget = DARWIN, g_enmBuildArch = ARM64, g_fDebug = False \<rparr>"

definition always_timeout :: "string list \<Rightarrow> proc" where
  "always_timeout asCmd' = SubprocessError"

definition always_fails :: "string list \<Rightarrow> proc" where
  "always_fails asCmd' = Completed 1 [] ''error''"

definition always_ok :: "string list \<Rightarrow> proc" where
  "always_ok asCmd' = Completed 0 ''1.2.3\<newline>'' []"

definition zlib_files :: "string list" where
  "zlib_files = [''/usr/include/zlib.h'', ''/usr/lib/libz.so'']"

definition usr_dirs :: "string list" where
  "usr_dirs = [''/usr/include'', ''/usr/lib'']"

definition linux_host :: host where
  "linux_host = posix_host zlib_files usr_dirs [] always_fails ''x86_64''"

definition ppc64_host :: host where
  "ppc64_host = posix_host zlib_files usr_dirs [] always_fails ''ppc64''"

definition mips64_host :: host where
  "mips64_host = posix_host zlib_files usr_dirs [] always_fails ''mips64''"

definition xmu_host :: host where
  "xmu_host =
     posix_host [''/usr/include/X11/Xmu/Xmu.h'', ''/usr/lib/libXmu.dylib''] usr_dirs []
       always_ok ''arm64''"

definition disable_all :: args where
  "disable_all = \<lparr> config_libs_disable = (\<lambda>n. True), config_libs_path = (\<lambda>n. None),
                   config_tools_disable = (\<lambda>n. True), config_tools_path = (\<lambda>n. None) \<rparr>"

definition tool_makeself :: ToolCheck where
  "tool_makeself = ToolCheck_init ''makeself'' (Some [''makeself'']) None [LINUX]"

text \<open>The zlib probe as \<open>performCheck\<close> leaves it on \<open>linux_host\<close>.\<close>

definition found_zlib1g :: LibraryCheck where
  "found_zlib1g =
     lib_zlib1g\<lparr> fHave := Some True, sIncPath := Some ''/usr/include'', sLibPath := Some ''/usr/lib'' \<rparr>"

definition libc_host :: host where
  "libc_host =
     posix_host [''/usr/include/zlib.h'', ''/usr/lib/libc.a''] usr_dirs [] always_fails ''x86_64''"

definition custom_host :: host where
  "custom_host =
     posix_host [''/opt/zlib/include/zlib.h'', ''/opt/zlib/lib/libz.so'']
       [''/opt/zlib/include'', ''/opt/zlib/lib'', ''/work/vbox/src/libs'', ''/usr/include'', ''/usr/lib'']
       [] always_fails ''x86_64''"


definition wsdl2h_only_host :: host where
  "wsdl2h_only_host =
     posix_host [''/usr/bin/wsdl2h''] [''/usr/bin''] [''/usr/bin/wsdl2h''] always_ok ''x86_64''"

definition gsoap_host :: host where
  "gsoap_host =
     posix_host [''/usr/bin/soapcpp2'', ''/usr/bin/wsdl2h'', ''/usr/include/zlib.h'', ''/usr/lib/libz.so'']
       [''/usr/bin'', ''/usr/include'', ''/usr/lib'', ''/opt/gsoap'']
       [''/usr/bin/soapcpp2'', ''/usr/bin/wsdl2h''] always_ok ''x86_64''"

definition gsoap_custom_args :: args where
  "gsoap_custom_args =
     \<lparr> config_libs_disable = (\<lambda>n. False), config_libs_path = (\<lambda>n. None),
       config_tools_disable = (\<lambda>n. False), config_tools_path = (\<lambda>n. Some ''/opt/gsoap'') \<rparr>"

text \<open>
  A command name resolves when \<open>checkWhich\<close> returns a command path for it: the
  lookup finds an executable and the version query ends without a timeout and
  without an exception.
\<close>

definition resolves :: "host \<Rightarrow> string option \<Rightarrow> string \<Rightarrow> bool" where
  "resolves h sRoot sCmdName =
     (case checkWhich h sCmdName [] sRoot \<lparr> g_cErrors = 0, fs_log = [] \<rparr> of
        Inr ((sPath, sVersion), c) \<Rightarrow> truthy sPath
      | Inl e \<Rightarrow> False)"

text \<open>Truthiness of a stored value, as \<open>if\<close> and \<open>or\<close> test it.\<close>

fun py_truthy :: "pyval \<Rightarrow> bool" where
  "py_truthy (PStr s) = (s \<noteq> [])"
| "py_truthy (PBool b) = b"
| "py_truthy (PInt i) = (i \<noteq> 0)"
| "py_truthy PNone = False"

text \<open>
  The rule list \<open>envTransforms\<close> that \<open>main\<close> declares and hands to \<open>transform\<close>.
  Each lambda reads \<open>oEnv\<close>, whose dictionary is the one it is given, and
  \<open>oEnv.get(key)\<close> has the empty string as its default.
\<close>

definition envTransforms :: "rule list" where
  "envTransforms =
     [ \<lambda>env. if py_truthy (env_get env ''VBOX_ONLY_ADDITIONS'' (PStr ''''))
                 \<or> env_get env ''VBOX_WITH_DOCS'' (PStr '''') = PStr ''''
              then Dict [(''VBOX_WITH_DOCS_PACKING'', PStr '''')] else Dict [],
       \<lambda>env. if py_truthy (env_get env ''VBOX_ONLY_ADDITIONS'' (PStr ''''))
                 \<or> env_get env ''VBOX_OSE'' (PStr '''') = PStr ''1''
              then Dict [(''VBOX_WITH_EXTPACK_VNC'', PStr '''')] else Dict [],
       \<lambda>env. if py_truthy (env_get env ''VBOX_ONLY_ADDITIONS'' (PStr ''''))
              then Dict [(''VBOX_WITH_WEBSERVICES'', PStr '''')] else Dict [],
       \<lambda>env. if py_truthy (env_get env ''VBOX_OSE'' (PStr ''''))
              then Dict [(''VBOX_WITH_VALIDATIONKIT'', PStr ''''),
                         (''VBOX_WITH_WIN32_ADDITIONS'', PStr '''')] else Dict [],
       \<lambda>env. if py_truthy (env_get env ''VBOX_ONLY_ADDITIONS'' (PStr ''''))
              then Dict [(''VBOX_WITH_EXTPACK_PUEL_BUILD'', PStr '''')] else Dict [],
       \<lambda>env. if py_truthy (env_get env ''CONFIG_LIBS_DISABLE_QT'' (PStr ''''))
              then Dict [(''VBOX_WITH_QTGUI'', PStr '''')] else Dict [] ]"

text \<open>The keys these rules read.\<close>

definition envTransforms_reads :: "string set" where
  "envTransforms_reads =
     {''VBOX_ONLY_ADDITIONS'', ''VBOX_WITH_DOCS'', ''VBOX_OSE'', ''CONFIG_LIBS_DISABLE_QT''}"

text \<open>
  A rule reads only the keys of \<open>R\<close> when its result is the same on any two
  stores that agree on \<open>R\<close>; it writes outside \<open>R\<close> when no mapping it returns
  holds a key of \<open>R\<close>.
\<close>

definition reads_only :: "string set \<Rightarrow> rule \<Rightarrow> bool" where
  "reads_only R r = (\<forall>e e'. (\<forall>k\<in>R. dict_get e k = dict_get e' k) \<longrightarrow> r e = r e')"

definition writes_outside :: "string set \<Rightarrow> rule \<Rightarrow> bool" where
  "writes_outside R r = (\<forall>e ov. r e = Dict ov \<longrightarrow> fst ` set ov \<inter> R = {})"

text \<open>A rule that reads the key it writes.\<close>

definition rule_appends_a :: rule where
  "rule_appends_a env = Dict [(''K'', PStr (py_str (env_get env ''K'' (PStr '''')) @ ''a''))]"

section \<open>Properties of the environment store\<close>

lemma map_of_dict_set: "map_of (dict_set d k v) = (map_of d)(k \<mapsto> v)"
  by (induction d) (auto simp: fun_upd_twist)

lemma keys_dict_set:
  "map fst (dict_set d k v) = (if k \<in> fst ` set d then map fst d else map fst d @ [k])"
  by (induction d) force+

lemma dict_get_dict_set:
  "dict_get (dict_set d k v) k' = (if k' = k then Some v else dict_get d k')"
  by (simp add: dict_get_def map_of_dict_set)

lemma dict_get_dict_update:
  "dict_get (dict_update d r) k =
     (case map_of (rev r) k of Some v \<Rightarrow> Some v | None \<Rightarrow> dict_get d k)"
proof (induction r arbitrary: d)
  case Nil
  show ?case by simp
next
  case (Cons kv r)
  obtain a b where kv: "kv = (a, b)" by (cases kv)
  show ?case
    by (simp add: kv Cons.IH dict_get_dict_set map_add_def split: option.splits)
qed

lemma transform_append: "transform e (rs @ rs') = transform (transform e rs) rs'"
  by (induction rs arbitrary: e) simp_all

text \<open>
  Claim C9. \<open>modify(key, function)\<close> on an absent key raises the lookup failure
  and leaves the store as it was. On a present key no exception is raised, the
  key's value becomes the text of the function's result on the previous value
  (that result itself whenever it is a string), every other key keeps its
  value, and the order of the keys does not change.
\<close>

theorem modify_absent_raises_present_replaces:
  "(dict_get e key = None \<longrightarrow>
      modify e key func = (e, Some (KeyError (key @ '' not set in environment''))))
   \<and> (\<forall>v. dict_get e key = Some v \<longrightarrow>
         snd (modify e key func) = None
         \<and> dict_get (fst (modify e key func)) key = Some (PStr (py_str (func v)))
         \<and> (\<forall>s. func v = PStr s \<longrightarrow> dict_get (fst (modify e key func)) key = Some (func v))
         \<and> (\<forall>k'. k' \<noteq> key \<longrightarrow> dict_get (fst (modify e key func)) k' = dict_get e k')
         \<and> map fst (fst (modify e key func)) = map fst e)"
proof -
  have "map fst (dict_set e key x) = map fst e" if "dict_get e key = Some v" for v x
  proof -
    from that have "key \<in> fst ` set e"
      by (auto simp: dict_get_def dest: map_of_SomeD intro: rev_image_eqI)
    then show ?thesis by (simp add: keys_dict_set)
  qed
  then show ?thesis
    by (auto simp: modify_def dict_get_dict_set)
qed

theorem modify_absent_raises_present_replaces_witness:
  "dict_get example_env ''VBOX_WITH_QTGUI'' = None
   \<and> modify example_env ''VBOX_WITH_QTGUI'' append_bang
       = (example_env, Some (KeyError ''VBOX_WITH_QTGUI not set in environment''))
   \<and> dict_get example_env ''VBOX_WITH_DOCS'' = Some (PStr ''yes'')
   \<and> snd (modify example_env ''VBOX_WITH_DOCS'' append_bang) = None
   \<and> dict_get (fst (modify example_env ''VBOX_WITH_DOCS'' append_bang)) ''VBOX_WITH_DOCS''
       = Some (PStr ''yes!'')
   \<and> dict_get (fst (modify example_env ''VBOX_WITH_DOCS'' append_bang)) ''VBOX_OSE''
       = Some (PStr ''1'')"
proof -
  have absent: "dict_get example_env ''VBOX_WITH_QTGUI'' = None"
    by (simp add: dict_get_def example_env_def)
  have present: "dict_get example_env ''VBOX_WITH_DOCS'' = Some (PStr ''yes'')"
    by (simp add: dict_get_def example_env_def)
  have other: "dict_get example_env ''VBOX_OSE'' = Some (PStr ''1'')"
    by (simp add: dict_get_def example_env_def)
  from modify_absent_raises_present_replaces [of example_env "''VBOX_WITH_QTGUI''" append_bang]
       modify_absent_raises_present_replaces [of example_env "''VBOX_WITH_DOCS''" append_bang]
       absent present other
  show ?thesis by (simp add: append_bang_def)
qed

text \<open>Applying the same overrides a second time changes nothing.\<close>

lemma dict_update_append: "dict_update d (a @ b) = dict_update (dict_update d a) b"
  by (induction a arbitrary: d) auto

lemma map_of_dict_update: "map_of (dict_update d r) = map_of d ++ map_of (rev r)"
proof
  fix k
  show "map_of (dict_update d r) k = (map_of d ++ map_of (rev r)) k"
    using dict_get_dict_update [of d r k]
    by (simp add: dict_get_def map_add_def split: option.splits)
qed

lemma keys_dict_update_present:
  "fst ` set r \<subseteq> fst ` set d \<Longrightarrow> map fst (dict_update d r) = map fst d"
proof (induction r arbitrary: d)
  case Nil
  show ?case by simp
next
  case (Cons kv r)
  obtain a b where kv: "kv = (a, b)" by (cases kv)
  from Cons.prems kv have a: "a \<in> fst ` set d" by simp
  then have k: "map fst (dict_set d a b) = map fst d" by (simp add: keys_dict_set)
  then have "fst ` set (dict_set d a b) = fst ` set d" by (metis list.set_map)
  with Cons.prems have "fst ` set r \<subseteq> fst ` set (dict_set d a b)" by simp
  from Cons.IH [OF this] k kv show ?case by simp
qed

lemma keys_after_dict_update: "fst ` set r \<subseteq> fst ` set (dict_update d r)"
proof -
  have "dom (map_of (dict_update d r)) = dom (map_of d) \<union> dom (map_of (rev r))"
    by (simp add: map_of_dict_update Un_commute)
  then show ?thesis by (simp add: dom_map_of_conv_image_fst)
qed

lemma distinct_dict_set: "distinct (map fst d) \<Longrightarrow> distinct (map fst (dict_set d k v))"
  by (simp add: keys_dict_set)

lemma distinct_dict_update: "distinct (map fst d) \<Longrightarrow> distinct (map fst (dict_update d r))"
  by (induction r arbitrary: d) (auto simp: distinct_dict_set)

lemma env_eqI:
  "distinct (map fst xs) \<Longrightarrow> map fst xs = map fst ys \<Longrightarrow> map_of xs = map_of ys \<Longrightarrow> xs = ys"
proof (induction xs arbitrary: ys)
  case Nil
  then show ?case by simp
next
  case (Cons x xs)
  from Cons.prems(2) obtain y ys' where ys: "ys = y # ys'" by (cases ys) auto
  with Cons.prems(2) have f: "fst x = fst y" and ks: "map fst xs = map fst ys'" by simp_all
  from Cons.prems(3) ys have pt: "map_of (x # xs) k = map_of (y # ys') k" for k
    by (simp only:)
  from pt [of "fst x"] f have s: "snd x = snd y" by (cases x; cases y) simp
  with f have xy: "x = y" by (simp add: prod_eq_iff)
  have "map_of xs k = map_of ys' k" for k
  proof (cases "k = fst x")
    case True
    from Cons.prems(1) have "fst x \<notin> fst ` set xs" by simp
    moreover from this ks have "fst x \<notin> fst ` set ys'" by (metis list.set_map)
    ultimately have "map_of xs (fst x) = None" "map_of ys' (fst x) = None"
      by (simp_all add: map_of_eq_None_iff)
    with True show ?thesis by simp
  next
    case False
    from pt [of k] False f show ?thesis by (cases x; cases y) simp
  qed
  then have "map_of xs = map_of ys'" by (rule ext)
  from Cons.IH [OF _ ks this] Cons.prems(1) xy ys show ?case by simp
qed

lemma dict_update_twice:
  assumes "distinct (map fst d)"
  shows "dict_update (dict_update d r) r = dict_update d r"
proof (rule env_eqI)
  show "distinct (map fst (dict_update (dict_update d r) r))"
    using assms by (simp add: distinct_dict_update)
  show "map fst (dict_update (dict_update d r) r) = map fst (dict_update d r)"
    by (rule keys_dict_update_present) (rule keys_after_dict_update)
  show "map_of (dict_update (dict_update d r) r) = map_of (dict_update d r)"
    by (rule ext) (simp add: map_of_dict_update map_add_def split: option.splits)
qed

lemma transform_step_keeps_reads:
  assumes "writes_outside R r" and "k \<in> R"
  shows "dict_get (transform_step e r) k = dict_get e k"
proof (cases "r e")
  case NotDict
  then show ?thesis by (simp add: transform_step_def)
next
  case (Dict ov)
  with assms have "k \<notin> fst ` set (rev ov)" by (auto simp: writes_outside_def)
  then have "map_of (rev ov) k = None" by (simp add: map_of_eq_None_iff)
  with Dict show ?thesis by (simp add: transform_step_def dict_get_dict_update)
qed

lemma transform_stable_rules:
  assumes "\<forall>r\<in>set rs. reads_only R r \<and> writes_outside R r"
    and "\<forall>k\<in>R. dict_get e' k = dict_get e k"
  shows "transform e' rs =
           dict_update e' (concat (map (\<lambda>r. case r e of Dict ov \<Rightarrow> ov | NotDict \<Rightarrow> []) rs))"
  using assms
proof (induction rs arbitrary: e')
  case Nil
  show ?case by simp
next
  case (Cons r rs)
  from Cons.prems have ro: "reads_only R r" and wo: "writes_outside R r" by simp_all
  from ro Cons.prems(2) have same: "r e' = r e" by (simp add: reads_only_def)
  have step: "transform_step e' r = dict_update e' (case r e of Dict ov \<Rightarrow> ov | NotDict \<Rightarrow> [])"
    by (simp add: transform_step_def same split: rule_result.splits)
  have "\<forall>k\<in>R. dict_get (transform_step e' r) k = dict_get e k"
    using transform_step_keeps_reads [OF wo] Cons.prems(2) by simp
  from Cons.IH [OF _ this] Cons.prems(1)
  have "transform (transform_step e' r) rs =
          dict_update (transform_step e' r)
            (concat (map (\<lambda>r. case r e of Dict ov \<Rightarrow> ov | NotDict \<Rightarrow> []) rs))"
    by simp
  then show ?case by (simp add: step dict_update_append)
qed

lemma transform_keeps_reads:
  assumes "\<forall>r\<in>set rs. writes_outside R r" and "k \<in> R"
  shows "dict_get (transform e rs) k = dict_get e k"
  using assms by (induction rs arbitrary: e) (auto simp: transform_step_keeps_reads [where R = R])

lemma transform_twice_stable:
  assumes "distinct (map fst e)" and "\<forall>r\<in>set rs. reads_only R r \<and> writes_outside R r"
  shows "transform (transform e rs) rs = transform e rs"
proof -
  let ?ov = "concat (map (\<lambda>r. case r e of Dict ov \<Rightarrow> ov | NotDict \<Rightarrow> []) rs)"
  have 1: "transform e rs = dict_update e ?ov"
    using transform_stable_rules [OF assms(2), of e e] by simp
  have "\<forall>k\<in>R. dict_get (transform e rs) k = dict_get e k"
    using transform_keeps_reads [of rs R] assms(2) by simp
  from transform_stable_rules [OF assms(2) this]
  have "transform (transform e rs) rs = dict_update (transform e rs) ?ov" .
  with 1 dict_update_twice [OF assms(1)] show ?thesis by simp
qed

lemma envTransforms_stable:
  "\<forall>r\<in>set envTransforms. reads_only envTransforms_reads r \<and> writes_outside envTransforms_reads r"
  by (auto simp: envTransforms_def envTransforms_reads_def reads_only_def writes_outside_def
                 env_get_def split: if_splits)

text \<open>
  Claim C8, as the code has it. \<open>transform\<close> applies its rules in the declared
  order and merges each returned mapping into the store before the next rule
  runs: the last rule of a list is applied to the store that all earlier rules
  have produced; for two rules \<open>[A, B]\<close> the rule \<open>B\<close> is evaluated on the
  store that holds \<open>A\<close>'s overrides, where every key \<open>A\<close> wrote has the value
  \<open>A\<close> gave it last. The same list on the same initial store gives the same
  final store. Applying the list again to the store it has produced leaves
  that store unchanged when the rules read only keys that no rule of the list
  writes (the store, a dictionary, holding each key once).
\<close>

theorem transform_sequential_idempotent_when_stable:
  "transform e (rs @ [r]) = transform_step (transform e rs) r
   \<and> transform e [A, B] =
       (case B (transform_step e A) of
          Dict rb \<Rightarrow> dict_update (transform_step e A) rb
        | NotDict \<Rightarrow> transform_step e A)
   \<and> (\<forall>ra k. A e = Dict ra \<and> k \<in> fst ` set ra \<longrightarrow>
          dict_get (transform_step e A) k = map_of (rev ra) k)
   \<and> (\<forall>e' rs'. e' = e \<and> rs' = rs \<longrightarrow> transform e' rs' = transform e rs)
   \<and> (distinct (map fst e) \<and> (\<forall>x\<in>set rs. reads_only R x \<and> writes_outside R x)
        \<longrightarrow> transform (transform e rs) rs = transform e rs)"
proof -
  have 1: "transform e (rs @ [r]) = transform_step (transform e rs) r"
    by (simp add: transform_append)
  have 2: "transform e [A, B] =
       (case B (transform_step e A) of
          Dict rb \<Rightarrow> dict_update (transform_step e A) rb
        | NotDict \<Rightarrow> transform_step e A)"
    by (simp add: transform_step_def [of "transform_step e A" B])
  have 3: "dict_get (transform_step e A) k = map_of (rev ra) k"
    if "A e = Dict ra" "k \<in> fst ` set ra" for ra k
  proof -
    from that(2) have "k \<in> fst ` set (rev ra)" by simp
    then obtain v where "map_of (rev ra) k = Some v"
      by (metis domD dom_map_of_conv_image_fst)
    then show ?thesis
      by (simp add: transform_step_def that(1) dict_get_dict_update)
  qed
  have 4: "transform (transform e rs) rs = transform e rs"
    if "distinct (map fst e)" "\<forall>x\<in>set rs. reads_only R x \<and> writes_outside R x"
    using transform_twice_stable [OF that] .
  from 1 2 3 4 show ?thesis by blast
qed

theorem transform_sequential_idempotent_when_stable_witness:
  "rule_writes_x example_env = Dict [(''X'', PStr ''1'')]
   \<and> dict_get (transform_step example_env rule_writes_x) ''X'' = Some (PStr ''1'')
   \<and> rule_reads_x example_env = Dict [(''Y'', PStr ''unseen'')]
   \<and> transform example_env [rule_writes_x, rule_reads_x]
       = example_env @ [(''X'', PStr ''1''), (''Y'', PStr ''seen'')]
   \<and> distinct (map fst example_env)
   \<and> transform example_env envTransforms
       = example_env @ [(''VBOX_WITH_EXTPACK_VNC'', PStr []),
                        (''VBOX_WITH_VALIDATIONKIT'', PStr []),
                        (''VBOX_WITH_WIN32_ADDITIONS'', PStr [])]
   \<and> transform (transform example_env envTransforms) envTransforms
       = transform example_env envTransforms"
proof -
  note seq = transform_sequential_idempotent_when_stable
               [where e = example_env and rs = "[]" and r = rule_reads_x
                  and A = rule_writes_x and B = rule_reads_x and R = "{}"]
  have a: "rule_writes_x example_env = Dict [(''X'', PStr ''1'')]"
    by (simp add: rule_writes_x_def)
  have x: "dict_get (transform_step example_env rule_writes_x) ''X'' = Some (PStr ''1'')"
    using seq a by simp
  have step: "transform_step example_env rule_writes_x = example_env @ [(''X'', PStr ''1'')]"
    by (simp add: transform_step_def rule_writes_x_def example_env_def)
  have b: "rule_reads_x (transform_step example_env rule_writes_x) = Dict [(''Y'', PStr ''seen'')]"
    using x by (simp add: rule_reads_x_def env_get_def)
  have b0: "rule_reads_x example_env = Dict [(''Y'', PStr ''unseen'')]"
    by (simp add: rule_reads_x_def env_get_def dict_get_def example_env_def)
  have "transform example_env [rule_writes_x, rule_reads_x]
          = dict_update (transform_step example_env rule_writes_x) [(''Y'', PStr ''seen'')]"
    using seq b by simp
  also have "\<dots> = example_env @ [(''X'', PStr ''1''), (''Y'', PStr ''seen'')]"
    by (simp add: step) (simp add: example_env_def)
  finally have ab: "transform example_env [rule_writes_x, rule_reads_x]
                      = example_env @ [(''X'', PStr ''1''), (''Y'', PStr ''seen'')]" .
  have d: "distinct (map fst example_env)"
    by (simp add: example_env_def)
  have ev: "transform example_env envTransforms
              = example_env @ [(''VBOX_WITH_EXTPACK_VNC'', PStr []),
                               (''VBOX_WITH_VALIDATIONKIT'', PStr []),
                               (''VBOX_WITH_WIN32_ADDITIONS'', PStr [])]"
    by code_simp
  have twice: "transform (transform example_env envTransforms) envTransforms
                 = transform example_env envTransforms"
    using transform_sequential_idempotent_when_stable
            [where e = example_env and rs = envTransforms and R = envTransforms_reads]
          d envTransforms_stable
    by blast
  from a x b0 ab d ev twice show ?thesis by simp
qed

text \<open>
  The claim as the spec words it (applying the rule list is idempotent) fails
  for a rule that reads the key it writes: each application of
  \<open>rule_appends_a\<close> makes the value of \<open>K\<close> one character longer.
\<close>

theorem transform_idempotent_counterexample:
  "transform [(''K'', PStr ''a'')] [rule_appends_a] = [(''K'', PStr ''aa'')]
   \<and> transform (transform [(''K'', PStr ''a'')] [rule_appends_a]) [rule_appends_a]
       = [(''K'', PStr ''aaa'')]
   \<and> transform (transform [(''K'', PStr ''a'')] [rule_appends_a]) [rule_appends_a]
       \<noteq> transform [(''K'', PStr ''a'')] [rule_appends_a]"
  by code_simp

text \<open>
  Claim C7. With the basenames \<open>["libfoo", "bar"]\<close>, \<open>getLinkerArgs\<close> gives
  \<open>-lfoo\<close> and \<open>-l:bar\<close> on every target but Windows, and the empty list on
  Windows.
\<close>

theorem getLinkerArgs_libfoo_bar:
  "asLibFiles p = [''libfoo'', ''bar''] \<Longrightarrow>
     getLinkerArgs g p = (if g_enmBuildTarget g = WINDOWS then [] else [''-lfoo'', ''-l:bar''])"
  by (simp add: getLinkerArgs_def linker_arg_def startswith_def)

theorem getLinkerArgs_libfoo_bar_witness:
  "getLinkerArgs linux_globals (lib_zlib1g\<lparr>asLibFiles := [''libfoo'', ''bar'']\<rparr>) = [''-lfoo'', ''-l:bar'']
   \<and> getLinkerArgs windows_globals (lib_zlib1g\<lparr>asLibFiles := [''libfoo'', ''bar'']\<rparr>) = []"
  using getLinkerArgs_libfoo_bar [of "lib_zlib1g\<lparr>asLibFiles := [''libfoo'', ''bar'']\<rparr>" linux_globals]
        getLinkerArgs_libfoo_bar [of "lib_zlib1g\<lparr>asLibFiles := [''libfoo'', ''bar'']\<rparr>" windows_globals]
  by (simp add: linux_globals_def windows_globals_def)

section \<open>Properties of the probes\<close>

text \<open>
  Claim C10. On a target other than Windows, a machine name that the triplet
  table does not hold makes \<open>getIncSearchPaths\<close> raise \<open>TypeError\<close>; on Linux
  and Solaris \<open>getLibSearchPaths\<close> raises it as well; and \<open>performCheck\<close> of an
  enabled, applicable library probe that names a header ends in that exception
  instead of a status.
\<close>

theorem missing_gnu_triplet_raises:
  assumes "getLinuxGnuTypeFromPlatform h = None" and "g_enmBuildTarget g \<noteq> WINDOWS"
  shows "getIncSearchPaths h g p c = Inl TypeError
       \<and> (g_enmBuildTarget g = LINUX \<or> g_enmBuildTarget g = SOLARIS
            \<longrightarrow> getLibSearchPaths h g p c = Inl TypeError)
       \<and> (g_enmBuildTarget g \<notin> set (aeTargetsExcluded p) \<and> \<not> fDisabled p
            \<and> (g_enmBuildTarget g \<in> set (aeTargets p) \<or> ANY \<in> set (aeTargets p))
            \<and> (asIncFiles p \<noteq> [] \<or> asAltIncFiles p \<noteq> [])
            \<longrightarrow> LibraryCheck_performCheck h g p c = Inl TypeError)"
proof -
  have inc: "getIncSearchPaths h g p c = Inl TypeError"
    using assms by (simp add: getIncSearchPaths_def inc_asPaths_def Let_def)
  have lib: "getLibSearchPaths h g p c = Inl TypeError"
    if "g_enmBuildTarget g = LINUX \<or> g_enmBuildTarget g = SOLARIS"
    using assms that by (auto simp: getLibSearchPaths_def lib_asPaths_def Let_def)
  have chk: "checkInc h g p c = Inl TypeError" if "asIncFiles p \<noteq> [] \<or> asAltIncFiles p \<noteq> []"
    using that inc by (auto simp: checkInc_def Let_def)
  show ?thesis
    using inc lib chk by (auto simp: LibraryCheck_performCheck_def)
qed

theorem missing_gnu_triplet_raises_witness:
  "getLinuxGnuTypeFromPlatform ppc64_host = None
   \<and> getLinuxGnuTypeFromPlatform mips64_host = None
   \<and> getIncSearchPaths ppc64_host linux_globals lib_zlib1g ctx0 = Inl TypeError
   \<and> getLibSearchPaths mips64_host linux_globals lib_zlib1g ctx0 = Inl TypeError
   \<and> LibraryCheck_performCheck ppc64_host linux_globals lib_zlib1g ctx0 = Inl TypeError"
proof -
  have p: "getLinuxGnuTypeFromPlatform ppc64_host = None"
    by code_simp
  have m: "getLinuxGnuTypeFromPlatform mips64_host = None"
    by code_simp
  have g: "g_enmBuildTarget linux_globals = LINUX" by (simp add: linux_globals_def)
  have z: "aeTargetsExcluded lib_zlib1g = [] \<and> \<not> fDisabled lib_zlib1g
           \<and> aeTargets lib_zlib1g = [ANY] \<and> asIncFiles lib_zlib1g = [''zlib.h'']"
    by (simp add: lib_zlib1g_def LibraryCheck_init_def)
  from missing_gnu_triplet_raises [OF p, of linux_globals lib_zlib1g ctx0]
       missing_gnu_triplet_raises [OF m, of linux_globals lib_zlib1g ctx0]
       p m g z
  show ?thesis by simp
qed

text \<open>
  Claim C5. \<open>performCheck\<close> of a probe whose target is excluded or that is
  disabled sets the status to \<open>None\<close> and returns; for a target that the
  applicability set does not hold (and no \<open>ANY\<close> in it) it returns without
  touching the probe. So a probe that has not been checked yet (\<open>fHave\<close> is
  \<open>None\<close>, as the constructor leaves it) comes out unchanged in all three
  cases, for a library and for a tool: the status is \<open>None\<close> and not \<open>False\<close>.
  In each case the run context is the one that went in: no call to the file
  system was made and no error was counted, whatever the host holds.
\<close>

theorem not_applicable_or_disabled_stays_not_checked:
  "(g_enmBuildTarget g \<in> set (aeTargetsExcluded p) \<or> fDisabled p
      \<longrightarrow> LibraryCheck_performCheck h g p c = Inr (p\<lparr>fHave := None\<rparr>, c))
   \<and> (fHave p = None
      \<and> (g_enmBuildTarget g \<in> set (aeTargetsExcluded p) \<or> fDisabled p
          \<or> (g_enmBuildTarget g \<notin> set (aeTargets p) \<and> ANY \<notin> set (aeTargets p)))
      \<longrightarrow> LibraryCheck_performCheck h g p c = Inr (p, c))
   \<and> (fDisabled t \<longrightarrow> ToolCheck_performCheck h g t c = Inr (True, t\<lparr>fHave := None\<rparr>, c))
   \<and> (fHave t = None
      \<and> (fDisabled t \<or> (g_enmBuildTarget g \<notin> set (aeTargets t) \<and> ANY \<notin> set (aeTargets t)))
      \<longrightarrow> ToolCheck_performCheck h g t c = Inr (True, t, c))"
proof -
  have "p\<lparr>fHave := None\<rparr> = p" if "fHave p = None"
    using that by (cases p) simp
  moreover have "t\<lparr>fHave := None\<rparr> = t" if "fHave t = None"
    using that by (cases t) simp
  ultimately show ?thesis
    by (auto simp: LibraryCheck_performCheck_def ToolCheck_performCheck_def)
qed

theorem not_applicable_or_disabled_stays_not_checked_witness:
  "path_isfile xmu_host ''/usr/include/X11/Xmu/Xmu.h''
   \<and> LibraryCheck_performCheck xmu_host darwin_globals lib_xmu ctx0 = Inr (lib_xmu, ctx0)
   \<and> fHave lib_xmu = None
   \<and> path_isfile linux_host ''/usr/include/zlib.h''
   \<and> LibraryCheck_performCheck linux_host linux_globals (LibraryCheck_setArgs disable_all lib_zlib1g) ctx0
       = Inr (LibraryCheck_setArgs disable_all lib_zlib1g, ctx0)
   \<and> ToolCheck_performCheck xmu_host darwin_globals tool_makeself ctx0 = Inr (True, tool_makeself, ctx0)
   \<and> fHave tool_makeself = None"
proof -
  have files: "path_isfile xmu_host ''/usr/include/X11/Xmu/Xmu.h''
               \<and> path_isfile linux_host ''/usr/include/zlib.h''"
    by code_simp
  have xmu: "fHave lib_xmu = None \<and> g_enmBuildTarget darwin_globals \<in> set (aeTargetsExcluded lib_xmu)"
    by (simp add: lib_xmu_def LibraryCheck_init_def darwin_globals_def)
  have zlib: "fHave (LibraryCheck_setArgs disable_all lib_zlib1g) = None
              \<and> fDisabled (LibraryCheck_setArgs disable_all lib_zlib1g)"
    by (simp add: lib_zlib1g_def LibraryCheck_init_def LibraryCheck_setArgs_def disable_all_def)
  have tool: "fHave tool_makeself = None
              \<and> g_enmBuildTarget darwin_globals \<notin> set (aeTargets tool_makeself)
              \<and> ANY \<notin> set (aeTargets tool_makeself)"
    by (simp add: tool_makeself_def ToolCheck_init_def darwin_globals_def)
  from not_applicable_or_disabled_stays_not_checked
         [where p = lib_xmu and g = darwin_globals and h = xmu_host and c = ctx0
            and t = tool_makeself]
       not_applicable_or_disabled_stays_not_checked
         [where p = "LibraryCheck_setArgs disable_all lib_zlib1g" and g = linux_globals
            and h = linux_host and c = ctx0 and t = tool_makeself]
       files xmu zlib tool
  show ?thesis by simp
qed

text \<open>
  Claim C6. For a library probe that is found, when the test program can be
  written and then the compiler times out or returns a nonzero code, or the
  compiled program times out or returns a nonzero code, \<open>compileAndExecute\<close>
  returns with the status still found and the version as it was (unset, for a
  probe that \<open>performCheck\<close> has just found), and with at least one more error
  counted.
\<close>

theorem verification_failure_keeps_found:
  assumes "fHave p = Some True" and "open_w h (sFilePath h g p)"
    and "subprocess_run h (compile_asCmd h g p) = SubprocessError
         \<or> (\<exists>rc out err. subprocess_run h (compile_asCmd h g p) = Completed rc out err \<and> rc \<noteq> 0)
         \<or> (\<exists>out err. subprocess_run h (compile_asCmd h g p) = Completed 0 out err
              \<and> (subprocess_run h [sBinPath h g] = SubprocessError
                   \<or> (\<exists>rc out2 err2. subprocess_run h [sBinPath h g] = Completed rc out2 err2
                         \<and> rc \<noteq> 0)))"
  shows "\<exists>p' c'. compileAndExecute h g p c = Inr (p', c')
           \<and> fHave p' = Some True \<and> sVer p' = sVer p \<and> g_cErrors c < g_cErrors c'"
proof -
  let ?c3 = "touch (Run [sBinPath h g]) (touch (Run (compile_asCmd h g p))
               (touch (OpenW (sFilePath h g p)) (touch MkDTemp c)))"
  have mono: "g_cErrors x \<le> g_cErrors (remove_binary h g b x)" for b x
    by (simp add: remove_binary_def Let_def printError_def touch_def)
  have "\<exists>c'. compileAndExecute h g p c = Inr (p, c') \<and> g_cErrors c < g_cErrors c'"
    using assms(2,3) mono [of "printError ?c3" "sBinPath h g"]
          mono [of "printError (printError ?c3)" "sBinPath h g"]
    by (auto simp: compileAndExecute_def Let_def printError_def touch_def)
  with assms(1) show ?thesis by auto
qed

theorem verification_failure_keeps_found_witness:
  "fHave found_zlib1g = Some True \<and> sVer found_zlib1g = None
   \<and> subprocess_run linux_host (compile_asCmd linux_host linux_globals found_zlib1g)
       = Completed 1 [] ''error''
   \<and> (\<exists>p' c'. compileAndExecute linux_host linux_globals found_zlib1g ctx0 = Inr (p', c')
         \<and> fHave p' = Some True \<and> sVer p' = None \<and> 0 < g_cErrors c')"
proof -
  have f: "fHave found_zlib1g = Some True \<and> sVer found_zlib1g = None"
    by (simp add: found_zlib1g_def lib_zlib1g_def LibraryCheck_init_def)
  have w: "open_w linux_host (sFilePath linux_host linux_globals found_zlib1g)"
    by (simp add: linux_host_def posix_host_def)
  have r: "subprocess_run linux_host (compile_asCmd linux_host linux_globals found_zlib1g)
             = Completed 1 [] ''error''"
    by (simp add: linux_host_def posix_host_def always_fails_def)
  have e: "g_cErrors ctx0 = 0" by (simp add: ctx0_def)
  from verification_failure_keeps_found [of found_zlib1g linux_host linux_globals ctx0] f w r e
  show ?thesis by simp
qed

section \<open>Properties of checkWhich and the tool probes\<close>

text \<open>What \<open>checkWhich\<close> returns does not depend on the run context it starts from
  nor on the tool description, which only goes into the error text.\<close>

lemma version_loop_ctx:
  "map_sum id fst (version_loop h sPath sw c) = map_sum id fst (version_loop h sPath sw c2)"
  by (induction sw arbitrary: c c2) (auto simp: Let_def split: proc.splits sum.splits)

lemma checkWhich_ctx:
  "map_sum id fst (checkWhich h n d r c) = map_sum id fst (checkWhich h n d2 r c2)"
  using version_loop_ctx
  by (auto simp: checkWhich_def checkWhich_lookup_def Let_def split: option.splits)

text \<open>\<open>checkWhich\<close> returns either no path and no version, or a path that is not
  empty together with a version.\<close>

lemma version_loop_result:
  "version_loop h sPath sw c = Inr ((p, v), c') \<Longrightarrow>
     (p = None \<and> v = None) \<or> (p = Some sPath \<and> v \<noteq> None)"
  by (induction sw arbitrary: c) (auto simp: Let_def split: proc.splits sum.splits if_splits)

lemma checkWhich_result:
  "checkWhich h n d r c = Inr ((p, v), c') \<Longrightarrow> (p = None \<and> v = None) \<or> (truthy p \<and> v \<noteq> None)"
  by (auto simp: checkWhich_def truthy_def split: prod.splits option.splits if_splits
           dest: version_loop_result)

lemma resolves_checkWhich:
  assumes "resolves h r n"
  shows "\<exists>sPath sVersion c'. checkWhich h n d r c = Inr ((Some sPath, Some sVersion), c') \<and> sPath \<noteq> []"
proof -
  let ?c0 = "\<lparr>g_cErrors = 0, fs_log = []\<rparr>"
  from assms obtain p v c0' where 0: "checkWhich h n [] r ?c0 = Inr ((p, v), c0')" and t: "truthy p"
    by (auto simp: resolves_def split: sum.splits)
  from checkWhich_ctx [of h n d r c "[]" ?c0] 0
  obtain c' where 1: "checkWhich h n d r c = Inr ((p, v), c')"
    by (cases "checkWhich h n d r c") auto
  from checkWhich_result [OF 1] t obtain sv where "v = Some sv" by (auto simp: truthy_def)
  moreover from t obtain sp where "p = Some sp" "sp \<noteq> []" by (auto simp: truthy_def split: option.splits)
  ultimately show ?thesis using 1 by auto
qed

lemma performCheck_loop_all_resolve:
  "\<forall>cmd\<in>set cmds. resolves h (sCustomPath t) cmd \<Longrightarrow>
     \<exists>t' c'. performCheck_loop h t cmds c = Inr (True, t', c')
        \<and> (cmds \<noteq> [] \<longrightarrow> fHave t' = Some True \<and> truthy (sCmdPath t'))"
proof (induction cmds arbitrary: t c)
  case Nil
  show ?case by simp
next
  case (Cons cmd cmds)
  from Cons.prems have "resolves h (sCustomPath t) cmd" by simp
  from resolves_checkWhich [OF this, of "sName t" c]
  obtain sp sv c1 where cw: "checkWhich h cmd (sName t) (sCustomPath t) c = Inr ((Some sp, Some sv), c1)"
    and sp: "sp \<noteq> []" by blast
  let ?t1 = "t\<lparr>sCmdPath := Some sp, sVer := Some sv, fHave := Some True\<rparr>"
  have "\<forall>cmd\<in>set cmds. resolves h (sCustomPath ?t1) cmd" using Cons.prems by simp
  from Cons.IH [OF this, of c1]
  obtain t' c' where l: "performCheck_loop h ?t1 cmds c1 = Inr (True, t', c')"
    and r: "cmds \<noteq> [] \<longrightarrow> fHave t' = Some True \<and> truthy (sCmdPath t')" by blast
  have "cmds = [] \<Longrightarrow> t' = ?t1" using l by simp
  with l r cw sp show ?case
    by (cases "cmds = []") (auto simp: truthy_def)
qed

lemma checkWhich_custom_absent:
  assumes "custom_root r = Some sRoot"
    and "\<not> (path_isfile h (path_join h sRoot n) \<and> access_x h (path_join h sRoot n))"
  shows "\<exists>c'. checkWhich h n d r c = Inr ((None, None), c')
           \<and> g_cErrors c' = g_cErrors c + 1
           \<and> (\<forall>x. Which x \<in> set (fs_log c') \<longrightarrow> Which x \<in> set (fs_log c))"
  using assms
  by (auto simp: checkWhich_def checkWhich_lookup_def Let_def printError_def touch_def)

text \<open>
  Claim C1, as the code has it. An enabled, applicable tool probe without a
  callback and with a non-empty list of command names ends found, with a
  command path, and \<open>performCheck\<close> returns success, when every name of the list
  resolves. Under a custom root, a name that is not an executable file there
  makes \<open>checkWhich\<close> return \<open>(None, None)\<close> with one error counted and without
  any PATH search.
\<close>

theorem tool_found_when_all_resolve:
  "(\<not> fDisabled t \<and> (g_enmBuildTarget g \<in> set (aeTargets t) \<or> ANY \<in> set (aeTargets t))
      \<and> fnCallback t = None \<and> asCmd t = Some cmds \<and> cmds \<noteq> []
      \<and> (\<forall>cmd\<in>set cmds. resolves h (sCustomPath t) cmd)
      \<longrightarrow> (\<exists>t' c'. ToolCheck_performCheck h g t c = Inr (True, t', c')
              \<and> fHave t' = Some True \<and> truthy (sCmdPath t')))
   \<and> (custom_root r = Some sRoot
      \<and> \<not> (path_isfile h (path_join h sRoot n) \<and> access_x h (path_join h sRoot n))
      \<longrightarrow> (\<exists>c'. checkWhich h n d r c = Inr ((None, None), c')
              \<and> g_cErrors c' = g_cErrors c + 1
              \<and> (\<forall>x. Which x \<in> set (fs_log c') \<longrightarrow> Which x \<in> set (fs_log c))))"
proof -
  have found: "\<exists>t' c'. ToolCheck_performCheck h g t c = Inr (True, t', c')
              \<and> fHave t' = Some True \<and> truthy (sCmdPath t')"
    if "\<not> fDisabled t" "g_enmBuildTarget g \<in> set (aeTargets t) \<or> ANY \<in> set (aeTargets t)"
       "fnCallback t = None" "asCmd t = Some cmds" "cmds \<noteq> []"
       "\<forall>cmd\<in>set cmds. resolves h (sCustomPath t) cmd"
    using performCheck_loop_all_resolve [OF that(6), of c] that(1-5)
    by (auto simp: ToolCheck_performCheck_def)
  have absent: "\<exists>c'. checkWhich h n d r c = Inr ((None, None), c')
              \<and> g_cErrors c' = g_cErrors c + 1
              \<and> (\<forall>x. Which x \<in> set (fs_log c') \<longrightarrow> Which x \<in> set (fs_log c))"
    if "custom_root r = Some sRoot"
       "\<not> (path_isfile h (path_join h sRoot n) \<and> access_x h (path_join h sRoot n))"
    using checkWhich_custom_absent [OF that] .
  from found absent show ?thesis by blast
qed

theorem tool_found_when_all_resolve_witness:
  "resolves gsoap_host None ''soapcpp2'' \<and> resolves gsoap_host None ''wsdl2h''
   \<and> (\<exists>t' c'. ToolCheck_performCheck gsoap_host linux_globals tool_gsoap ctx0 = Inr (True, t', c')
         \<and> fHave t' = Some True \<and> truthy (sCmdPath t'))
   \<and> which gsoap_host ''soapcpp2'' = Some ''/usr/bin/soapcpp2''
   \<and> (\<exists>c'. checkWhich gsoap_host ''soapcpp2'' ''gsoap'' (Some ''/opt/gsoap'') ctx0
               = Inr ((None, None), c')
         \<and> g_cErrors c' = 1 \<and> Which ''soapcpp2'' \<notin> set (fs_log c'))"
proof -
  have r: "resolves gsoap_host None ''soapcpp2'' \<and> resolves gsoap_host None ''wsdl2h''"
    by code_simp
  have t: "\<not> fDisabled tool_gsoap \<and> aeTargets tool_gsoap = [ANY] \<and> fnCallback tool_gsoap = None
           \<and> asCmd tool_gsoap = Some [''soapcpp2'', ''wsdl2h''] \<and> sCustomPath tool_gsoap = None"
    by (simp add: tool_gsoap_def ToolCheck_init_def)
  have w: "which gsoap_host ''soapcpp2'' = Some ''/usr/bin/soapcpp2''"
    by code_simp
  have a: "custom_root (Some ''/opt/gsoap'') = Some ''/opt/gsoap''"
    by code_simp
  have b: "\<not> (path_isfile gsoap_host (path_join gsoap_host ''/opt/gsoap'' ''soapcpp2'')
               \<and> access_x gsoap_host (path_join gsoap_host ''/opt/gsoap'' ''soapcpp2''))"
    by code_simp
  have e: "g_cErrors ctx0 = 0 \<and> fs_log ctx0 = []" by (simp add: ctx0_def)
  from tool_found_when_all_resolve
         [where t = tool_gsoap and g = linux_globals and cmds = "[''soapcpp2'', ''wsdl2h'']"
            and h = gsoap_host and c = ctx0 and r = "Some ''/opt/gsoap''" and sRoot = "''/opt/gsoap''"
            and n = "''soapcpp2''" and d = "''gsoap''"]
       r t w a b e
  show ?thesis by auto
qed

text \<open>
  The claim as the spec words it (found if at least one name resolves) fails:
  for the gsoap probe on a host that has \<open>wsdl2h\<close> but not \<open>soapcpp2\<close>, the loop
  returns at the first name and the status stays \<open>None\<close>.
\<close>

theorem tool_found_if_one_resolves_counterexample:
  "asCmd tool_gsoap = Some [''soapcpp2'', ''wsdl2h'']
   \<and> resolves wsdl2h_only_host None ''wsdl2h''
   \<and> map_sum id (\<lambda>(fRes, t, c). (fRes, fHave t, sCmdPath t))
        (ToolCheck_performCheck wsdl2h_only_host linux_globals tool_gsoap ctx0)
       = Inr (False, None, None)"
  by code_simp

section \<open>Which fields a check can set\<close>















section \<open>The library search paths and the library pattern\<close>

text \<open>
  Where the lists begin as claim C3 says: the include list on every target,
  and the library list on every target but Linux and Solaris, start with the
  custom root (when set) and the source tree's \<open>src/libs\<close>.
\<close>

lemma inc_asPaths_prefix:
  assumes "inc_asPaths h g p c = Inr (asPaths, c')"
  shows "\<exists>rest. asPaths =
           (case custom_root (sCustomPath p) of
              Some sRoot \<Rightarrow> [path_join h sRoot ''include''] | None \<Rightarrow> [])
           @ [path_join h (g_sScriptPath h) ''src/libs''] @ rest"
  using assms
  by (auto simp: inc_asPaths_def Let_def split: if_splits prod.splits option.splits)

lemma lib_asPaths_prefix:
  assumes "lib_asPaths h g p c = Inr (asPaths, c')"
    and "g_enmBuildTarget g \<noteq> LINUX" "g_enmBuildTarget g \<noteq> SOLARIS"
  shows "\<exists>rest. asPaths =
           (case custom_root (sCustomPath p) of
              Some sRoot \<Rightarrow> [path_join h sRoot ''lib''] | None \<Rightarrow> [])
           @ [path_join h (g_sScriptPath h) ''src/libs''] @ rest"
  using assms
  by (auto simp: lib_asPaths_def Let_def split: if_splits prod.splits option.splits)

text \<open>On Linux and Solaris the library list is the nine system directories and
  nothing else.\<close>

lemma lib_asPaths_linux_solaris:
  assumes "lib_asPaths h g p c = Inr (asPaths, c')"
    and "g_enmBuildTarget g = LINUX \<or> g_enmBuildTarget g = SOLARIS"
  shows "\<exists>sGnuType. asPaths =
           [ ''/usr/lib'', ''/usr/local/lib'',
             ''/usr/lib/'' @ sGnuType, ''/opt/local/lib/'' @ sGnuType,
             ''/usr/lib64'', ''/lib'', ''/lib64'', ''/opt/lib'', ''/opt/local/lib'' ]"
  using assms
  by (auto simp: lib_asPaths_def Let_def split: if_splits option.splits)

text \<open>
  Claim C3 at a failing input: the zlib probe with the custom root \<open>/opt/zlib\<close>
  on a Linux host where \<open>/opt/zlib/lib\<close> and the source tree's \<open>src/libs\<close>
  exist. The library search list is \<open>/usr/lib\<close> alone, while the include
  search list of the same probe starts with both roots.
\<close>

theorem getLibSearchPaths_linux_drops_roots:
  "path_exists custom_host ''/opt/zlib/lib''
   \<and> path_exists custom_host ''/work/vbox/src/libs''
   \<and> map_sum id fst
        (getLibSearchPaths custom_host linux_globals
           (lib_zlib1g\<lparr>sCustomPath := Some ''/opt/zlib''\<rparr>) ctx0)
       = Inr [''/usr/lib'']
   \<and> map_sum id fst
        (getIncSearchPaths custom_host linux_globals
           (lib_zlib1g\<lparr>sCustomPath := Some ''/opt/zlib''\<rparr>) ctx0)
       = Inr [''/opt/zlib/include'', ''/work/vbox/src/libs'', ''/usr/include'']"
  by code_simp

text \<open>
  Claim C4 at a failing input: the zlib probe (basename \<open>libz\<close>) on a Linux
  host whose \<open>/usr/lib\<close> holds \<open>libc.a\<close> and no file that starts with \<open>libz\<close>.
  The pattern handed to \<open>glob\<close> is the text of the whole basename list
  followed by \<open>*.a\<close>; its bracket part matches one character out of the
  list's text, so \<open>libc.a\<close> matches and \<open>/usr/lib\<close> becomes the library root.
\<close>

theorem checkLib_accepts_other_library:
  "fnmatch ''libc.a'' ''libz*.a'' = False
   \<and> fnmatch ''libc.a'' ''libz*.so'' = False
   \<and> posix_listdir [''/usr/include/zlib.h'', ''/usr/lib/libc.a''] ''/usr/lib'' = [''libc.a'']
   \<and> map_sum id (\<lambda>(fFound, p, c). (fFound, sLibPath p, drop 9 (fs_log c)))
        (checkLib libc_host linux_globals lib_zlib1g ctx0)
       = Inr (True, Some ''/usr/lib'',
              [Glob (''/usr/lib/['' @ [squote] @ ''libz'' @ [squote] @ '']*.a''),
               IsFile ''/usr/lib/libc.a''])"
  by code_simp

end
